theory Spec2Isabelle
  imports Main "HOL-Library.FSet" "HOL-Library.Multiset"
begin

section \<open>JavaScript values and helpers\<close>

text \<open>
  The request bodies and engine objects the dashboard handles are JSON values. Numbers are
  the integers (counts, sizes, limits); an absent property reads as \<open>undefined\<close>.
\<close>

datatype jsval = JUndefined | JNull | JBool bool | JNum int | JStr string

text \<open>Truthiness, as \<open>||\<close> and \<open>!\<close> test it.\<close>

fun truthy :: "jsval \<Rightarrow> bool" where
  "truthy JUndefined = False"
| "truthy JNull = False"
| "truthy (JBool b) = b"
| "truthy (JNum n) = (n \<noteq> 0)"
| "truthy (JStr s) = (s \<noteq> [])"

text \<open>\<open>a || b\<close>.\<close>

definition js_or :: "jsval \<Rightarrow> jsval \<Rightarrow> jsval" where
  "js_or a b = (if truthy a then a else b)"

text \<open>
  \<open>x || 0\<close> for a property that is a count when present (\<open>None\<close> is \<open>undefined\<close>):
  the count itself, and 0 when it is absent or 0.
\<close>

definition or_zero :: "nat option \<Rightarrow> nat" where
  "or_zero x = (case x of None \<Rightarrow> 0 | Some n \<Rightarrow> n)"

subsection \<open>Numbers\<close>

text \<open>
  The numbers the handlers compute with are integers that a double holds, the two
  infinities and \<open>NaN\<close>.
\<close>

datatype jsnum = NaN | Num int | PosInfinity | NegInfinity

text \<open>
  The double nearest to an integer: the integer itself up to \<open>2^53\<close>, beyond that the
  nearest number of 53 significant bits, a tie going to the even one, and an infinity from
  \<open>2^1024 - 2^970\<close> on.
\<close>

fun bit_length :: "nat \<Rightarrow> nat" where
  "bit_length n = (if n = 0 then 0 else Suc (bit_length (n div 2)))"

definition round_double :: "int \<Rightarrow> jsnum" where
  "round_double n =
     (let m = nat \<bar>n\<bar>
      in if m \<le> 2 ^ 53 then Num n
         else
           (let sh = bit_length m - 53;
                q = m div 2 ^ sh;
                r = m mod 2 ^ sh;
                half = 2 ^ (sh - 1);
                q' = (if half < r \<or> (r = half \<and> odd q) then q + 1 else q);
                v = q' * 2 ^ sh
            in if 2 ^ 1024 \<le> v then (if n < 0 then NegInfinity else PosInfinity)
               else Num (if n < 0 then - int v else int v)))"

text \<open>\<open>x - 1\<close>.\<close>

fun js_minus_one :: "jsnum \<Rightarrow> jsnum" where
  "js_minus_one NaN = NaN"
| "js_minus_one (Num n) = round_double (n - 1)"
| "js_minus_one PosInfinity = PosInfinity"
| "js_minus_one NegInfinity = NegInfinity"

section \<open>The queue engine, as the dashboard sees it\<close>

text \<open>
  The engine (\<open>qm\<close>) is an external client object. The dashboard only calls its methods;
  each call either returns a value or raises (\<open>Inl\<close> carries the error's message).
  A fixed engine state is a record of the answers to those calls.
\<close>

type_synonym error = string

record queue =
  queue_id :: string
  queue_name :: string

record queue_listing =
  queues :: "queue list"
  total :: "nat option"

record job =
  job_id :: string
  status :: string
  addedAt :: int

record queue_stats =
  itemCount :: "nat option"

type_synonym fields = "(string \<times> jsval) list"

record engine_stats =
  top_fields :: fields
  system_fields :: fields

record create_opts =
  description :: jsval
  maxSize :: jsval

record engine =
  hasEventEmitter :: bool
  qm_healthCheck :: "error + fields"
  qm_getSystemStats :: "error + engine_stats"
  qm_getAllQueues :: "nat \<Rightarrow> error + queue_listing"
  qm_getQueueStats :: "string \<Rightarrow> error + queue_stats"
  qm_getQueueItems :: "string \<Rightarrow> jsnum \<Rightarrow> jsnum \<Rightarrow> error + job list"
  qm_createQueue :: "jsval \<Rightarrow> jsval \<Rightarrow> create_opts \<Rightarrow> error + fields"
  qm_deleteQueue :: "string \<Rightarrow> error + unit"

section \<open>The dashboard instance\<close>

record features =
  authentication :: bool
  websocket :: bool

text \<open>
  \<open>connectedClients\<close> is the dashboard's JavaScript \<open>Set\<close> of socket ids. The socket
  server \<open>io\<close> keeps its own state: the sockets connected to it (\<open>io_sockets\<close>) and
  the rooms they have joined (\<open>io_rooms\<close>, pairs of socket id and room name).
\<close>

record dashboard =
  feats :: features
  qm :: "engine option"
  connectedClients :: "string fset"
  io_sockets :: "string fset"
  io_rooms :: "(string \<times> string) fset"

text \<open>\<open>Set.prototype.add\<close>, \<open>delete\<close> and \<open>size\<close>.\<close>

definition set_add :: "'a \<Rightarrow> 'a fset \<Rightarrow> 'a fset" where
  "set_add x A = finsert x A"

definition set_delete :: "'a \<Rightarrow> 'a fset \<Rightarrow> 'a fset" where
  "set_delete x A = A |-| {|x|}"

definition set_size :: "'a fset \<Rightarrow> nat" where
  "set_size A = fcard A"

section \<open>The stats aggregator: \<open>getSystemStats\<close>\<close>

record totals =
  totalJobs :: nat
  activeJobs :: nat
  failedJobs :: nat

definition zero_totals :: totals where
  "zero_totals = \<lparr>totalJobs = 0, activeJobs = 0, failedJobs = 0\<rparr>"

text \<open>The body of \<open>jobs.forEach\<close>: one job, bucketed by its status.\<close>

definition count_job :: "totals \<Rightarrow> job \<Rightarrow> totals" where
  "count_job t j =
     (if status j = ''processing'' \<or> status j = ''pending''
      then t\<lparr>activeJobs := activeJobs t + 1\<rparr>
      else if status j = ''failed'' \<or> status j = ''timed_out''
      then t\<lparr>failedJobs := failedJobs t + 1\<rparr>
      else t)"

text \<open>
  The body of the loop over the queues, with its \<open>try\<close>/\<open>catch\<close>: the declared item count
  is added first, then the items of the range 0 to 1000 are fetched and bucketed. A raise
  leaves the loop body where it happens; what was added before it stays.
\<close>

definition queue_step :: "engine \<Rightarrow> totals \<Rightarrow> queue \<Rightarrow> totals" where
  "queue_step e t q =
     (case qm_getQueueStats e (queue_id q) of
        Inl err \<Rightarrow> t
      | Inr queueStats \<Rightarrow>
          (let t1 = t\<lparr>totalJobs := totalJobs t + or_zero (itemCount queueStats)\<rparr>
           in case qm_getQueueItems e (queue_id q) (Num 0) (Num 1000) of
                Inl err \<Rightarrow> t1
              | Inr jobs \<Rightarrow> foldl count_job t1 jobs))"

text \<open>
  The snapshot: the engine's own fields, with the \<open>system\<close> object's five computed fields
  laid over the engine's (a computed field replaces an engine field of the same name).
\<close>

record stats_snapshot =
  snap_top :: fields
  snap_system_rest :: fields
  snap_totalQueues :: nat
  snap_totalJobs :: nat
  snap_activeJobs :: nat
  snap_failedJobs :: nat
  snap_connectedClients :: nat

definition computed_names :: "string list" where
  "computed_names =
     [''totalJobs'', ''activeJobs'', ''failedJobs'', ''totalQueues'', ''connectedClients'']"

definition getSystemStats :: "dashboard \<Rightarrow> error + stats_snapshot" where
  "getSystemStats d =
     (case qm d of
        None \<Rightarrow>
          Inr \<lparr>snap_top = [], snap_system_rest = [],
               snap_totalQueues = 0, snap_totalJobs = 0, snap_activeJobs = 0,
               snap_failedJobs = 0,
               snap_connectedClients = set_size (connectedClients d)\<rparr>
      | Some e \<Rightarrow>
          (case qm_getSystemStats e of
             Inl err \<Rightarrow> Inl err
           | Inr systemStats \<Rightarrow>
               (case qm_getAllQueues e 1000 of
                  Inl err \<Rightarrow> Inl err
                | Inr qs \<Rightarrow>
                    (let t = foldl (queue_step e) zero_totals (queues qs)
                     in Inr \<lparr>snap_top = filter (\<lambda>kv. fst kv \<noteq> ''system'') (top_fields systemStats),
                             snap_system_rest =
                               filter (\<lambda>kv. fst kv \<notin> set computed_names)
                                 (system_fields systemStats),
                             snap_totalQueues = or_zero (total qs),
                             snap_totalJobs = totalJobs t,
                             snap_activeJobs = activeJobs t,
                             snap_failedJobs = failedJobs t,
                             snap_connectedClients = set_size (connectedClients d)\<rparr>))))"

section \<open>Numbers from the query string\<close>

text \<open>
  A JavaScript string is its sequence of UTF-16 code units; \<open>js_str\<close> is a string of
  ASCII text.
\<close>

type_synonym js_string = "nat list"

definition js_str :: "string \<Rightarrow> js_string" where
  "js_str s = map of_char s"

text \<open>
  \<open>parseInt(string)\<close> with no radix: leading white space (the white space and line
  terminators of the language: tab, line feed, vertical tab, form feed, carriage return,
  space, no-break space, the Unicode space separators, line and paragraph separator, byte
  order mark) is skipped, an optional sign is read, a \<open>0x\<close> or \<open>0X\<close> prefix selects base
  16, and the longest run of digits is read; with no digit the result is \<open>NaN\<close>,
  otherwise the double nearest to the signed value of the digits.
\<close>

definition js_whitespace :: "nat \<Rightarrow> bool" where
  "js_whitespace c =
     (c \<in> set [9, 10, 11, 12, 13, 32, 160, 5760, 8232, 8233, 8239, 8287, 12288, 65279]
      \<or> (8192 \<le> c \<and> c \<le> 8202))"

text \<open>The value of a digit: \<open>0\<close> to \<open>9\<close>, then the letters of either case from 10 on.\<close>

definition digit_value :: "nat \<Rightarrow> nat option" where
  "digit_value c =
     (if 48 \<le> c \<and> c \<le> 57 then Some (c - 48)
      else if 97 \<le> c \<and> c \<le> 122 then Some (c - 87)
      else if 65 \<le> c \<and> c \<le> 90 then Some (c - 55)
      else None)"

definition radix_digit :: "nat \<Rightarrow> nat \<Rightarrow> nat option" where
  "radix_digit r c =
     (case digit_value c of
        None \<Rightarrow> None
      | Some v \<Rightarrow> if v < r then Some v else None)"

fun digits_prefix :: "nat \<Rightarrow> js_string \<Rightarrow> nat list" where
  "digits_prefix r [] = []"
| "digits_prefix r (c # cs) =
     (case radix_digit r c of
        None \<Rightarrow> []
      | Some v \<Rightarrow> v # digits_prefix r cs)"

definition digits_number :: "nat \<Rightarrow> nat list \<Rightarrow> nat" where
  "digits_number r ds = foldl (\<lambda>acc v. acc * r + v) 0 ds"

text \<open>The code units 45, 43, 48, 120 and 88 are \<open>-\<close>, \<open>+\<close>, \<open>0\<close>, \<open>x\<close> and \<open>X\<close>.\<close>

definition parseInt :: "js_string \<Rightarrow> jsnum" where
  "parseInt s =
     (let s1 = dropWhile js_whitespace s;
          neg = (case s1 of [] \<Rightarrow> False | c # _ \<Rightarrow> c = 45);
          s2 = (case s1 of [] \<Rightarrow> []
                | c # cs \<Rightarrow> if c = 45 \<or> c = 43 then cs else s1);
          hex = (take 2 s2 = [48, 120] \<or> take 2 s2 = [48, 88]);
          r = (if hex then 16 else 10);
          s3 = (if hex then drop 2 s2 else s2);
          ds = digits_prefix r s3
      in if ds = [] then NaN
         else round_double ((if neg then - 1 else 1) * int (digits_number r ds)))"

text \<open>
  \<open>const { limit = dflt } = req.query; parseInt(limit)\<close>: the query parameter is a string
  when present; when it is absent the default number is used, and \<open>parseInt\<close> of that
  number is the number.
\<close>

definition parsed_limit :: "nat \<Rightarrow> js_string option \<Rightarrow> jsnum" where
  "parsed_limit dflt q = (case q of None \<Rightarrow> Num (int dflt) | Some s \<Rightarrow> parseInt s)"

text \<open>
  \<open>xs.slice(0, end)\<close>: \<open>NaN\<close> counts as 0, a negative end counts from the end of the
  array, and the end is clamped to the array.
\<close>

fun js_slice0 :: "'a list \<Rightarrow> jsnum \<Rightarrow> 'a list" where
  "js_slice0 xs NaN = []"
| "js_slice0 xs (Num k) =
     (if k < 0 then take (nat (int (length xs) + k)) xs else take (nat k) xs)"
| "js_slice0 xs PosInfinity = xs"
| "js_slice0 xs NegInfinity = []"

section \<open>Dates and the sort by date\<close>

text \<open>
  \<open>new Date(t)\<close> for a number \<open>t\<close> of milliseconds is a valid date up to 8.64e15
  milliseconds either side of the epoch, and an invalid date, whose time value is \<open>NaN\<close>,
  beyond. A creation time that is missing or is no date reads as invalid too, and stands
  here as a number out of that range.
\<close>

definition time_value :: "int \<Rightarrow> int option" where
  "time_value t = (if \<bar>t\<bar> \<le> 8640000000000000 then Some t else None)"

definition valid_dates :: "('a \<Rightarrow> int) \<Rightarrow> 'a list \<Rightarrow> bool" where
  "valid_dates time xs = list_all (\<lambda>x. time_value (time x) \<noteq> None) xs"

text \<open>
  \<open>xs.sort((a, b) => new Date(time b) - new Date(time a))\<close>. The comparator is \<open>NaN\<close> when
  one of the two dates is invalid, and the sort reads \<open>NaN\<close> as 0. When every date is
  valid the comparator orders by time, latest first, and the sort is stable. When some
  date is invalid the comparator is consistent only if the valid times are all the same:
  then every comparison is 0 and the array stays as it is. Otherwise the order of the
  result is left to the implementation of the sort (\<open>None\<close>).
\<close>

definition sort_newest_first :: "('a \<Rightarrow> int) \<Rightarrow> 'a list \<Rightarrow> 'a list option" where
  "sort_newest_first time xs =
     (if valid_dates time xs then Some (sort_key (\<lambda>x. - time x) xs)
      else if length (remdups (List.map_filter (\<lambda>x. time_value (time x)) xs)) \<le> 1
      then Some xs
      else None)"

section \<open>The HTTP API layer\<close>

text \<open>
  A job of \<open>GET /api/jobs\<close> is \<open>{...job, queueId, queueName}\<close>: the job's own properties
  (\<open>item\<close>) and the two annotations.
\<close>

record listed_job =
  item :: job
  queueId :: string
  queueName :: string

record activity =
  act_type :: string
  act_description :: string
  act_status :: string
  act_timestamp :: int
  act_queueId :: string

record validation_error =
  err_param :: string
  err_msg :: string
  err_value :: jsval

text \<open>
  The bodies of the answers. The last two stand for an array whose order the sort
  implementation chooses: the first entries, up to the limit, of the given entries in some
  order.
\<close>

datatype body =
    HealthBody fields
  | UnhealthyBody error
  | ErrorBody error
  | ValidationBody "validation_error list"
  | StatsBody stats_snapshot
  | QueuesBody queue_listing
  | CreatedBody fields
  | SuccessBody
  | JobsBody "listed_job list"
  | ActivityBody "activity list"
  | JobsInSomeOrderBody "listed_job list" jsnum
  | ActivityInSomeOrderBody "activity list" jsnum

record response =
  code :: nat
  payload :: body

text \<open>\<open>res.json(x)\<close> answers 200; \<open>res.status(c).json(x)\<close> answers \<open>c\<close>.\<close>

definition res_json :: "body \<Rightarrow> response" where
  "res_json b = \<lparr>code = 200, payload = b\<rparr>"

definition res_status_json :: "nat \<Rightarrow> body \<Rightarrow> response" where
  "res_status_json c b = \<lparr>code = c, payload = b\<rparr>"

definition get_health :: "dashboard \<Rightarrow> response" where
  "get_health d =
     (case qm d of
        None \<Rightarrow> res_json (HealthBody [(''status'', JStr ''demo'')])
      | Some e \<Rightarrow>
          (case qm_healthCheck e of
             Inl err \<Rightarrow> res_status_json 500 (UnhealthyBody err)
           | Inr health \<Rightarrow> res_json (HealthBody health)))"

definition get_system_stats :: "dashboard \<Rightarrow> response" where
  "get_system_stats d =
     (case getSystemStats d of
        Inl err \<Rightarrow> res_status_json 500 (ErrorBody err)
      | Inr stats \<Rightarrow> res_json (StatsBody stats))"

definition get_queues :: "dashboard \<Rightarrow> response" where
  "get_queues d =
     (case qm d of
        None \<Rightarrow> res_json (QueuesBody \<lparr>queues = [], total = Some 0\<rparr>)
      | Some e \<Rightarrow>
          (case qm_getAllQueues e 1000 of
             Inl err \<Rightarrow> res_status_json 500 (ErrorBody err)
           | Inr qs \<Rightarrow> res_json (QueuesBody qs)))"

subsection \<open>\<open>POST /api/queues\<close> and \<open>DELETE /api/queues/:queueId\<close>\<close>

record create_body =
  body_name :: jsval
  body_queueId :: jsval
  body_description :: jsval
  body_maxSize :: jsval

text \<open>
  Modelled from the spec: the validation library's \<open>notEmpty()\<close> is not part of the
  sources; the spec gives \<open>name\<close> and \<open>queueId\<close> as required and non-empty. A field passes
  when its text is not empty: an absent or \<open>null\<close> field and the empty string fail, every
  other value passes.
\<close>

fun notEmpty :: "jsval \<Rightarrow> bool" where
  "notEmpty JUndefined = False"
| "notEmpty JNull = False"
| "notEmpty (JStr s) = (s \<noteq> [])"
| "notEmpty (JBool b) = True"
| "notEmpty (JNum n) = True"

text \<open>
  The two validation chains of the route, run in order; \<open>validationResult(req).array()\<close>
  is the list of their errors.
\<close>

definition validationResult :: "create_body \<Rightarrow> validation_error list" where
  "validationResult b =
     (if notEmpty (body_name b) then []
      else [\<lparr>err_param = ''name'', err_msg = ''Queue name is required'',
             err_value = body_name b\<rparr>])
     @ (if notEmpty (body_queueId b) then []
        else [\<lparr>err_param = ''queueId'', err_msg = ''Queue ID is required'',
               err_value = body_queueId b\<rparr>])"

text \<open>The mutating engine calls a handler makes, in order.\<close>

datatype engine_call =
    CreateQueue jsval jsval create_opts
  | DeleteQueue string

definition post_queues :: "dashboard \<Rightarrow> create_body \<Rightarrow> response \<times> engine_call list" where
  "post_queues d b =
     (let errors = validationResult b
      in if errors \<noteq> [] then (res_status_json 400 (ValidationBody errors), [])
         else
           (case qm d of
              None \<Rightarrow> (res_status_json 503 (ErrorBody ''QueueManager not available''), [])
            | Some e \<Rightarrow>
                (let opts = \<lparr>description = body_description b,
                             maxSize = js_or (body_maxSize b) (JNum 10000)\<rparr>;
                     res = (case qm_createQueue e (body_name b) (body_queueId b) opts of
                              Inl err \<Rightarrow> res_status_json 400 (ErrorBody err)
                            | Inr queue \<Rightarrow> res_json (CreatedBody queue))
                 in (res, [CreateQueue (body_name b) (body_queueId b) opts]))))"

definition delete_queue :: "dashboard \<Rightarrow> string \<Rightarrow> response \<times> engine_call list" where
  "delete_queue d queueId_param =
     (case qm d of
        None \<Rightarrow> (res_status_json 503 (ErrorBody ''QueueManager not available''), [])
      | Some e \<Rightarrow>
          (let res = (case qm_deleteQueue e queueId_param of
                        Inl err \<Rightarrow> res_status_json 400 (ErrorBody err)
                      | Inr u \<Rightarrow> res_json SuccessBody)
           in (res, [DeleteQueue queueId_param])))"

subsection \<open>\<open>GET /api/jobs\<close>\<close>

definition annotate :: "queue \<Rightarrow> job \<Rightarrow> listed_job" where
  "annotate q j = \<lparr>item = j, queueId = queue_id q, queueName = queue_name q\<rparr>"

text \<open>
  The loop body over the queues: the items of the range 0 to \<open>parseInt(limit) - 1\<close> are
  pushed, annotated; a raise skips the queue.
\<close>

definition jobs_step :: "engine \<Rightarrow> jsnum \<Rightarrow> listed_job list \<Rightarrow> queue \<Rightarrow> listed_job list" where
  "jobs_step e lim allJobs q =
     (case qm_getQueueItems e (queue_id q) (Num 0) (js_minus_one lim) of
        Inl err \<Rightarrow> allJobs
      | Inr jobs \<Rightarrow> allJobs @ map (annotate q) jobs)"

text \<open>
  The jobs are sorted by \<open>addedAt\<close>, newest first, and the first \<open>parseInt(limit)\<close> of
  them are sent.
\<close>

definition get_jobs :: "dashboard \<Rightarrow> js_string option \<Rightarrow> response" where
  "get_jobs d limit =
     (case qm d of
        None \<Rightarrow> res_json (JobsBody [])
      | Some e \<Rightarrow>
          (let lim = parsed_limit 100 limit
           in case qm_getAllQueues e 1000 of
                Inl err \<Rightarrow> res_status_json 500 (ErrorBody err)
              | Inr qs \<Rightarrow>
                  (let allJobs = foldl (jobs_step e lim) [] (queues qs)
                   in case sort_newest_first (\<lambda>a. addedAt (item a)) allJobs of
                        Some sorted_jobs \<Rightarrow> res_json (JobsBody (js_slice0 sorted_jobs lim))
                      | None \<Rightarrow> res_json (JobsInSomeOrderBody allJobs lim))))"

subsection \<open>\<open>GET /api/activity/recent\<close>\<close>

definition project :: "queue \<Rightarrow> job \<Rightarrow> activity" where
  "project q j =
     \<lparr>act_type = ''Job'',
      act_description = ''Job '' @ job_id j @ '' in '' @ queue_name q,
      act_status = status j,
      act_timestamp = addedAt j,
      act_queueId = queue_id q\<rparr>"

definition activity_step :: "engine \<Rightarrow> activity list \<Rightarrow> queue \<Rightarrow> activity list" where
  "activity_step e acts q =
     (case qm_getQueueItems e (queue_id q) (Num 0) (Num 10) of
        Inl err \<Rightarrow> acts
      | Inr jobs \<Rightarrow> acts @ map (project q) jobs)"

definition get_activity_recent :: "dashboard \<Rightarrow> js_string option \<Rightarrow> response" where
  "get_activity_recent d limit =
     (case qm d of
        None \<Rightarrow> res_json (ActivityBody [])
      | Some e \<Rightarrow>
          (let lim = parsed_limit 20 limit
           in case qm_getAllQueues e 1000 of
                Inl err \<Rightarrow> res_status_json 500 (ErrorBody err)
              | Inr qs \<Rightarrow>
                  (let acts = foldl (activity_step e) [] (queues qs)
                   in case sort_newest_first act_timestamp acts of
                        Some sorted_acts \<Rightarrow> res_json (ActivityBody (js_slice0 sorted_acts lim))
                      | None \<Rightarrow> res_json (ActivityInSomeOrderBody acts lim))))"

section \<open>The stand-alone API server\<close>

text \<open>
  The repository's second server file serves the same routes on an engine client that is
  always there: the process exits when the client cannot be created. Its
  \<open>getSystemStats\<close> is the dashboard's without the engine check, and its
  \<open>POST /api/queues\<close> is the dashboard's without the validation and the engine check.
\<close>

definition server_getSystemStats :: "engine \<Rightarrow> string fset \<Rightarrow> error + stats_snapshot" where
  "server_getSystemStats e clients =
     (case qm_getSystemStats e of
        Inl err \<Rightarrow> Inl err
      | Inr systemStats \<Rightarrow>
          (case qm_getAllQueues e 1000 of
             Inl err \<Rightarrow> Inl err
           | Inr qs \<Rightarrow>
               (let t = foldl (queue_step e) zero_totals (queues qs)
                in Inr \<lparr>snap_top = filter (\<lambda>kv. fst kv \<noteq> ''system'') (top_fields systemStats),
                        snap_system_rest =
                          filter (\<lambda>kv. fst kv \<notin> set computed_names)
                            (system_fields systemStats),
                        snap_totalQueues = or_zero (total qs),
                        snap_totalJobs = totalJobs t,
                        snap_activeJobs = activeJobs t,
                        snap_failedJobs = failedJobs t,
                        snap_connectedClients = set_size clients\<rparr>)))"

definition server_post_queues :: "engine \<Rightarrow> create_body \<Rightarrow> response \<times> engine_call list" where
  "server_post_queues e b =
     (let opts = \<lparr>description = body_description b,
                  maxSize = js_or (body_maxSize b) (JNum 10000)\<rparr>;
          res = (case qm_createQueue e (body_name b) (body_queueId b) opts of
                   Inl err \<Rightarrow> res_status_json 400 (ErrorBody err)
                 | Inr queue \<Rightarrow> res_json (CreatedBody queue))
      in (res, [CreateQueue (body_name b) (body_queueId b) opts]))"

section \<open>Real-time clients and the event relay\<close>

text \<open>
  What a socket can bring about: its connection, the three messages the connection
  handler listens for, and its disconnection. Each carries the socket's id.
\<close>

datatype client_event =
    Connect string
  | GetStats string
  | SubscribeQueue string string
  | UnsubscribeQueue string string
  | Disconnect string

datatype socket_message =
    ConnectedMsg string
  | StatsUpdateMsg stats_snapshot
  | ErrorMsg string

text \<open>
  The socket server registers every connecting socket and forgets a disconnecting one with
  its rooms, whatever the dashboard does. The dashboard's handlers exist only when the
  \<open>websocket\<close> feature is on: \<open>io.on('connection', ...)\<close> stands inside
  \<open>if (features.websocket)\<close>, and the per-socket handlers are attached by it. The result is
  the new state and the messages sent to sockets.
\<close>

definition client_step ::
  "dashboard \<Rightarrow> client_event \<Rightarrow> dashboard \<times> (string \<times> socket_message) list" where
  "client_step d ev =
     (case ev of
        Connect sid \<Rightarrow>
          (let d1 = d\<lparr>io_sockets := finsert sid (io_sockets d)\<rparr>
           in if websocket (feats d)
              then (d1\<lparr>connectedClients := set_add sid (connectedClients d1)\<rparr>,
                    [(sid, ConnectedMsg ''Connected to ReQueue Dashboard'')])
              else (d1, []))
      | GetStats sid \<Rightarrow>
          (if websocket (feats d)
           then (case getSystemStats d of
                   Inl err \<Rightarrow> (d, [(sid, ErrorMsg ''Failed to get stats'')])
                 | Inr stats \<Rightarrow> (d, [(sid, StatsUpdateMsg stats)]))
           else (d, []))
      | SubscribeQueue sid queueId_arg \<Rightarrow>
          (if websocket (feats d)
           then (d\<lparr>io_rooms := finsert (sid, ''queue:'' @ queueId_arg) (io_rooms d)\<rparr>, [])
           else (d, []))
      | UnsubscribeQueue sid queueId_arg \<Rightarrow>
          (if websocket (feats d)
           then (d\<lparr>io_rooms := io_rooms d |-| {|(sid, ''queue:'' @ queueId_arg)|}\<rparr>, [])
           else (d, []))
      | Disconnect sid \<Rightarrow>
          (let d1 = d\<lparr>io_sockets := io_sockets d |-| {|sid|},
                      io_rooms := ffilter (\<lambda>m. fst m \<noteq> sid) (io_rooms d)\<rparr>
           in if websocket (feats d)
              then (d1\<lparr>connectedClients := set_delete sid (connectedClients d1)\<rparr>, [])
              else (d1, [])))"

definition client_steps :: "dashboard \<Rightarrow> client_event list \<Rightarrow> dashboard" where
  "client_steps d evs = foldl (\<lambda>s ev. fst (client_step s ev)) d evs"

text \<open>
  A sequence of events the socket server can deliver: a connecting socket has a fresh id,
  and a message or a disconnection comes from a socket that is connected.
\<close>

fun deliverable :: "dashboard \<Rightarrow> client_event list \<Rightarrow> bool" where
  "deliverable d [] = True"
| "deliverable d (ev # evs) =
     ((case ev of
         Connect sid \<Rightarrow> sid |\<notin>| connectedClients d
       | GetStats sid \<Rightarrow> sid |\<in>| connectedClients d
       | SubscribeQueue sid q \<Rightarrow> sid |\<in>| connectedClients d
       | UnsubscribeQueue sid q \<Rightarrow> sid |\<in>| connectedClients d
       | Disconnect sid \<Rightarrow> sid |\<in>| connectedClients d)
      \<and> deliverable (fst (client_step d ev)) evs)"

fun is_connect :: "client_event \<Rightarrow> bool" where
  "is_connect (Connect sid) = True"
| "is_connect ev = False"

fun is_disconnect :: "client_event \<Rightarrow> bool" where
  "is_disconnect (Disconnect sid) = True"
| "is_disconnect ev = False"

subsection \<open>The relay\<close>

datatype emission = IoEmit string jsval

type_synonym listener = "string \<times> (jsval \<Rightarrow> emission)"

definition relay_events :: "string list" where
  "relay_events =
     [''queueCreated'', ''queueDeleted'', ''queuePaused'', ''queueResumed'',
      ''jobAdded'', ''jobProcessed'', ''jobFailed'', ''jobCancelled'']"

text \<open>The listeners \<open>setupRealtimeEvents\<close> registers on the engine's event emitter.\<close>

definition setupRealtimeEvents :: "dashboard \<Rightarrow> listener list" where
  "setupRealtimeEvents d =
     (case qm d of
        None \<Rightarrow> []
      | Some e \<Rightarrow>
          if \<not> hasEventEmitter e then []
          else [(''queueCreated'', \<lambda>data. IoEmit ''queueCreated'' data),
                (''queueDeleted'', \<lambda>data. IoEmit ''queueDeleted'' data),
                (''queuePaused'', \<lambda>data. IoEmit ''queuePaused'' data),
                (''queueResumed'', \<lambda>data. IoEmit ''queueResumed'' data),
                (''jobAdded'', \<lambda>data. IoEmit ''jobAdded'' data),
                (''jobProcessed'', \<lambda>data. IoEmit ''jobProcessed'' data),
                (''jobFailed'', \<lambda>data. IoEmit ''jobFailed'' data),
                (''jobCancelled'', \<lambda>data. IoEmit ''jobCancelled'' data)])"

text \<open>\<open>initializeQueueManager\<close> sets the relay up only when the feature is on.\<close>

definition relay_listeners :: "dashboard \<Rightarrow> listener list" where
  "relay_listeners d = (if websocket (feats d) then setupRealtimeEvents d else [])"

text \<open>
  The emitter calls the listeners of the event's name, in the order of registration.
  \<open>io.emit(name, data)\<close> delivers to every socket connected to the server; rooms play no
  part in it. A delivery is (socket id, event name, payload).
\<close>

definition emitter_emit :: "listener list \<Rightarrow> string \<Rightarrow> jsval \<Rightarrow> emission list" where
  "emitter_emit ls name data = map (\<lambda>l. snd l data) (filter (\<lambda>l. fst l = name) ls)"

fun io_emit :: "dashboard \<Rightarrow> emission \<Rightarrow> (string \<times> string \<times> jsval) fset" where
  "io_emit d (IoEmit name data) = (\<lambda>sid. (sid, name, data)) |`| io_sockets d"

definition engine_event :: "dashboard \<Rightarrow> string \<Rightarrow> jsval \<Rightarrow> (string \<times> string \<times> jsval) fset list" where
  "engine_event d name data = map (io_emit d) (emitter_emit (relay_listeners d) name data)"

section \<open>An in-memory engine for the examples\<close>

text \<open>
  A queue with its items in the engine's order. An index range includes both of its ends
  and a negative index counts from the end of the list: the convention under which the end
  index \<open>limit - 1\<close> of the job listings fetches \<open>limit\<close> items.
\<close>

record stored_queue =
  sq_queue :: queue
  sq_items :: "job list"

definition inclusive_range :: "'a list \<Rightarrow> int \<Rightarrow> int \<Rightarrow> 'a list" where
  "inclusive_range xs a b =
     (let n = int (length xs);
          start = (if a < 0 then max 0 (n + a) else a);
          stop = (if b < 0 then n + b else min b (n - 1))
      in if start > stop then [] else take (nat (stop - start + 1)) (drop (nat start) xs))"

definition find_queue :: "stored_queue list \<Rightarrow> string \<Rightarrow> stored_queue option" where
  "find_queue store qid = find (\<lambda>sq. queue_id (sq_queue sq) = qid) store"

definition store_engine :: "stored_queue list \<Rightarrow> engine" where
  "store_engine store =
     \<lparr>hasEventEmitter = True,
      qm_healthCheck = Inr [(''status'', JStr ''healthy'')],
      qm_getSystemStats = Inr \<lparr>top_fields = [], system_fields = []\<rparr>,
      qm_getAllQueues =
        (\<lambda>limit. Inr \<lparr>queues = take limit (map sq_queue store),
                       total = Some (length store)\<rparr>),
      qm_getQueueStats =
        (\<lambda>qid. case find_queue store qid of
                  None \<Rightarrow> Inl ''Queue not found''
                | Some sq \<Rightarrow> Inr \<lparr>itemCount = Some (length (sq_items sq))\<rparr>),
      qm_getQueueItems =
        (\<lambda>qid start stop.
           case find_queue store qid of
             None \<Rightarrow> Inl ''Queue not found''
           | Some sq \<Rightarrow>
               (case (start, stop) of
                  (Num a, Num b) \<Rightarrow> Inr (inclusive_range (sq_items sq) a b)
                | _ \<Rightarrow> Inl ''Invalid range'')),
      qm_createQueue = (\<lambda>name qid opts. Inr [(''id'', qid), (''name'', name)]),
      qm_deleteQueue = (\<lambda>qid. Inr ())\<rparr>"

definition default_features :: features where
  "default_features = \<lparr>authentication = False, websocket = True\<rparr>"

text \<open>A dashboard just created, before and after the engine client is obtained.\<close>

definition demo_dashboard :: dashboard where
  "demo_dashboard =
     \<lparr>feats = default_features, qm = None, connectedClients = {||},
      io_sockets = {||}, io_rooms = {||}\<rparr>"

definition dashboard_on :: "engine \<Rightarrow> dashboard" where
  "dashboard_on e = demo_dashboard\<lparr>qm := Some e\<rparr>"

definition mk_queue :: "string \<Rightarrow> string \<Rightarrow> queue" where
  "mk_queue qid nm = \<lparr>queue_id = qid, queue_name = nm\<rparr>"

definition mk_job :: "string \<Rightarrow> string \<Rightarrow> int \<Rightarrow> job" where
  "mk_job jid st t = \<lparr>job_id = jid, status = st, addedAt = t\<rparr>"

section \<open>The spec's vocabulary and the examples\<close>

text \<open>The six statuses of the spec's example, one job of each in one queue.\<close>

definition six_statuses :: "string list" where
  "six_statuses = [''pending'', ''processing'', ''completed'', ''failed'', ''timed_out'', ''cancelled'']"

definition six_status_queue :: stored_queue where
  "six_status_queue =
     \<lparr>sq_queue = mk_queue ''q1'' ''Queue one'',
      sq_items = map (\<lambda>st. mk_job (''job-'' @ st) st 0) six_statuses\<rparr>"

text \<open>
  The spec's buckets: an active job is pending or processing, a failed job is failed or
  timed out.
\<close>

definition spec_active :: "job \<Rightarrow> bool" where
  "spec_active j = (status j \<in> {''pending'', ''processing''})"

definition spec_failed :: "job \<Rightarrow> bool" where
  "spec_failed j = (status j \<in> {''failed'', ''timed_out''})"

text \<open>
  What one queue of the listing brings to the totals: the item count its stats declare,
  and the items that reach the classification. Both are nothing when the stats fetch
  raises; the items are nothing when the item fetch raises.
\<close>

definition declared_count :: "engine \<Rightarrow> queue \<Rightarrow> nat" where
  "declared_count e q =
     (case qm_getQueueStats e (queue_id q) of
        Inl err \<Rightarrow> 0
      | Inr st \<Rightarrow> or_zero (itemCount st))"

definition classified_items :: "engine \<Rightarrow> queue \<Rightarrow> job list" where
  "classified_items e q =
     (case qm_getQueueStats e (queue_id q) of
        Inl err \<Rightarrow> []
      | Inr st \<Rightarrow>
          (case qm_getQueueItems e (queue_id q) (Num 0) (Num 1000) of
             Inl err \<Rightarrow> []
           | Inr jobs \<Rightarrow> jobs))"

text \<open>
  Engines in which one call raises: the engine's own stats, every item fetch, every
  per-queue stats fetch.
\<close>

definition stats_down_engine :: engine where
  "stats_down_engine =
     (store_engine [six_status_queue])\<lparr>qm_getSystemStats := Inl ''stats unavailable''\<rparr>"

definition items_down_engine :: engine where
  "items_down_engine =
     (store_engine [six_status_queue])
       \<lparr>qm_getQueueItems := (\<lambda>qid start stop. Inl ''items unavailable'')\<rparr>"

definition queue_stats_down_engine :: engine where
  "queue_stats_down_engine =
     (store_engine [six_status_queue])
       \<lparr>qm_getQueueStats := (\<lambda>qid. Inl ''stats unavailable'')\<rparr>"

text \<open>A queue of 1500 pending jobs.\<close>

definition big_queue :: stored_queue where
  "big_queue =
     \<lparr>sq_queue = mk_queue ''big'' ''Big queue'',
      sq_items = replicate 1500 (mk_job ''j'' ''pending'' 0)\<rparr>"

text \<open>
  The invariant in the spec's words: every count, the total included, comes from the
  classification of at most the first 1000 items of each queue.
\<close>

definition spec_first_1000 :: "stored_queue list \<Rightarrow> totals" where
  "spec_first_1000 store =
     \<lparr>totalJobs = (\<Sum>sq\<leftarrow>store. length (take 1000 (sq_items sq))),
      activeJobs = (\<Sum>sq\<leftarrow>store. length (filter spec_active (take 1000 (sq_items sq)))),
      failedJobs = (\<Sum>sq\<leftarrow>store. length (filter spec_failed (take 1000 (sq_items sq))))\<rparr>"

text \<open>A request body for \<open>POST /api/queues\<close>, with no description.\<close>

definition mk_body :: "jsval \<Rightarrow> jsval \<Rightarrow> jsval \<Rightarrow> create_body" where
  "mk_body nm qid ms =
     \<lparr>body_name = nm, body_queueId = qid, body_description = JUndefined, body_maxSize = ms\<rparr>"

text \<open>\<open>connectedClients.size\<close>, the connected-client count of the stats.\<close>

definition client_count :: "dashboard \<Rightarrow> nat" where
  "client_count d = set_size (connectedClients d)"

text \<open>A dashboard with one client connected, and one with two, one of them in a room.\<close>

definition one_client_dashboard :: dashboard where
  "one_client_dashboard =
     demo_dashboard\<lparr>connectedClients := {|''s0''|}, io_sockets := {|''s0''|}\<rparr>"

definition relay_dashboard :: dashboard where
  "relay_dashboard =
     (dashboard_on (store_engine []))
       \<lparr>connectedClients := {|''s1'', ''s2''|},
        io_sockets := {|''s1'', ''s2''|},
        io_rooms := {|(''s1'', ''queue:Q1'')|}\<rparr>"

text \<open>
  What one queue brings to the job listing: its fetched items, annotated, and nothing when
  the fetch raises.
\<close>

definition queue_jobs :: "engine \<Rightarrow> jsnum \<Rightarrow> queue \<Rightarrow> listed_job list" where
  "queue_jobs e lim q =
     (case qm_getQueueItems e (queue_id q) (Num 0) (js_minus_one lim) of
        Inl err \<Rightarrow> []
      | Inr jobs \<Rightarrow> map (annotate q) jobs)"

text \<open>Sorted by time, descending: no entry is older than a later one.\<close>

definition newest_first :: "('a \<Rightarrow> int) \<Rightarrow> 'a list \<Rightarrow> bool" where
  "newest_first time xs = sorted_wrt (\<lambda>a b. time b \<le> time a) xs"

text \<open>The array a response carries.\<close>

definition jobs_of :: "response \<Rightarrow> listed_job list" where
  "jobs_of r = (case payload r of JobsBody js \<Rightarrow> js | _ \<Rightarrow> [])"

text \<open>
  The arrays an answer of \<open>GET /api/jobs\<close> can carry: the array itself, or, when the
  order is the sort implementation's choice, the first entries up to the limit of any
  arrangement of the jobs.
\<close>

definition possible_jobs :: "response \<Rightarrow> listed_job list \<Rightarrow> bool" where
  "possible_jobs r ys =
     (case payload r of
        JobsBody js \<Rightarrow> ys = js
      | JobsInSomeOrderBody xs lim \<Rightarrow> (\<exists>p. mset p = mset xs \<and> ys = js_slice0 p lim)
      | _ \<Rightarrow> False)"

text \<open>
  A queue of three jobs, the second with a creation time one millisecond past the range
  of dates.
\<close>

definition late_date_queue :: stored_queue where
  "late_date_queue =
     \<lparr>sq_queue = mk_queue ''q1'' ''Mail'',
      sq_items =
        [mk_job ''a'' ''pending'' 1, mk_job ''b'' ''pending'' 8640000000000001,
         mk_job ''c'' ''pending'' 2]\<rparr>"

text \<open>Three queues with one job each, the latest job in the second queue.\<close>

definition three_queues :: "stored_queue list" where
  "three_queues =
     [\<lparr>sq_queue = mk_queue ''qa'' ''Mail'', sq_items = [mk_job ''a1'' ''pending'' 10]\<rparr>,
      \<lparr>sq_queue = mk_queue ''qb'' ''Reports'', sq_items = [mk_job ''b1'' ''failed'' 30]\<rparr>,
      \<lparr>sq_queue = mk_queue ''qc'' ''Images'', sq_items = [mk_job ''c1'' ''completed'' 20]\<rparr>]"

text \<open>
  What one queue brings to the recent activity: its fetched items, projected, and nothing
  when the fetch raises.
\<close>

definition queue_activity :: "engine \<Rightarrow> queue \<Rightarrow> activity list" where
  "queue_activity e q =
     (case qm_getQueueItems e (queue_id q) (Num 0) (Num 10) of
        Inl err \<Rightarrow> []
      | Inr jobs \<Rightarrow> map (project q) jobs)"

definition activity_of :: "response \<Rightarrow> activity list" where
  "activity_of r = (case payload r of ActivityBody acts \<Rightarrow> acts | _ \<Rightarrow> [])"

text \<open>A queue of eleven jobs, created at times 1 to 11.\<close>

definition eleven_queue :: stored_queue where
  "eleven_queue =
     \<lparr>sq_queue = mk_queue ''q1'' ''Mail'',
      sq_items =
        [mk_job ''j1'' ''pending'' 1, mk_job ''j2'' ''pending'' 2, mk_job ''j3'' ''pending'' 3,
         mk_job ''j4'' ''pending'' 4, mk_job ''j5'' ''pending'' 5, mk_job ''j6'' ''pending'' 6,
         mk_job ''j7'' ''pending'' 7, mk_job ''j8'' ''pending'' 8, mk_job ''j9'' ''pending'' 9,
         mk_job ''j10'' ''pending'' 10, mk_job ''j11'' ''pending'' 11]\<rparr>"

section \<open>The aggregation loops\<close>

lemma count_job_active:
  "activeJobs (count_job t j) = activeJobs t + (if spec_active j then 1 else 0)"
  by (simp add: count_job_def spec_active_def)

lemma count_job_failed:
  "failedJobs (count_job t j) = failedJobs t + (if spec_failed j then 1 else 0)"
  by (simp add: count_job_def spec_failed_def)

lemma count_job_total: "totalJobs (count_job t j) = totalJobs t"
  by (simp add: count_job_def)

lemma foldl_count_job_active:
  "activeJobs (foldl count_job t jobs) = activeJobs t + length (filter spec_active jobs)"
  by (induction jobs arbitrary: t) (simp_all add: count_job_active)

lemma foldl_count_job_failed:
  "failedJobs (foldl count_job t jobs) = failedJobs t + length (filter spec_failed jobs)"
  by (induction jobs arbitrary: t) (simp_all add: count_job_failed)

lemma foldl_count_job_total: "totalJobs (foldl count_job t jobs) = totalJobs t"
  by (induction jobs arbitrary: t) (simp_all add: count_job_total)

lemma queue_step_total:
  "totalJobs (queue_step e t q) = totalJobs t + declared_count e q"
  by (simp add: queue_step_def declared_count_def foldl_count_job_total Let_def
      split: sum.splits)

lemma queue_step_active:
  "activeJobs (queue_step e t q) = activeJobs t + length (filter spec_active (classified_items e q))"
  by (simp add: queue_step_def classified_items_def foldl_count_job_active Let_def
      split: sum.splits)

lemma queue_step_failed:
  "failedJobs (queue_step e t q) = failedJobs t + length (filter spec_failed (classified_items e q))"
  by (simp add: queue_step_def classified_items_def foldl_count_job_failed Let_def
      split: sum.splits)

lemma foldl_queue_step_total:
  "totalJobs (foldl (queue_step e) t qs) = totalJobs t + (\<Sum>q\<leftarrow>qs. declared_count e q)"
  by (induction qs arbitrary: t) (simp_all add: queue_step_total)

lemma foldl_queue_step_active:
  "activeJobs (foldl (queue_step e) t qs) =
     activeJobs t + (\<Sum>q\<leftarrow>qs. length (filter spec_active (classified_items e q)))"
  by (induction qs arbitrary: t) (simp_all add: queue_step_active)

lemma foldl_queue_step_failed:
  "failedJobs (foldl (queue_step e) t qs) =
     failedJobs t + (\<Sum>q\<leftarrow>qs. length (filter spec_failed (classified_items e q)))"
  by (induction qs arbitrary: t) (simp_all add: queue_step_failed)

lemma getSystemStats_Inr:
  assumes "qm d = Some e" "qm_getSystemStats e = Inr ss" "qm_getAllQueues e 1000 = Inr qs"
  shows "\<exists>s. getSystemStats d = Inr s
     \<and> snap_totalJobs s = (\<Sum>q\<leftarrow>queues qs. declared_count e q)
     \<and> snap_activeJobs s = (\<Sum>q\<leftarrow>queues qs. length (filter spec_active (classified_items e q)))
     \<and> snap_failedJobs s = (\<Sum>q\<leftarrow>queues qs. length (filter spec_failed (classified_items e q)))
     \<and> snap_totalQueues s = or_zero (total qs)
     \<and> snap_connectedClients s = set_size (connectedClients d)"
  using assms
  by (simp add: getSystemStats_def Let_def foldl_queue_step_total foldl_queue_step_active
      foldl_queue_step_failed zero_totals_def)

lemma count_statuses:
  "length (filter (\<lambda>j. P (status j)) jobs) = size (filter_mset P (mset (map status jobs)))"
proof -
  have "length (filter (\<lambda>j. P (status j)) jobs) = length (filter P (map status jobs))"
    by (simp add: filter_map comp_def)
  also have "\<dots> = size (mset (filter P (map status jobs)))"
    by (simp only: size_mset)
  also have "\<dots> = size (filter_mset P (mset (map status jobs)))"
    by (simp only: mset_filter)
  finally show ?thesis .
qed

lemma six_statuses_buckets:
  assumes "mset (map status jobs) = mset six_statuses"
  shows "length (filter spec_active jobs) = 2" and "length (filter spec_failed jobs) = 2"
proof -
  have "length (filter spec_active jobs)
      = size (filter_mset (\<lambda>s. s \<in> {''pending'', ''processing''}) (mset six_statuses))"
    using count_statuses [of "\<lambda>s. s \<in> {''pending'', ''processing''}" jobs]
    by (simp only: spec_active_def [abs_def] assms)
  then show "length (filter spec_active jobs) = 2"
    by (simp add: six_statuses_def)
  have "length (filter spec_failed jobs)
      = size (filter_mset (\<lambda>s. s \<in> {''failed'', ''timed_out''}) (mset six_statuses))"
    using count_statuses [of "\<lambda>s. s \<in> {''failed'', ''timed_out''}" jobs]
    by (simp only: spec_failed_def [abs_def] assms)
  then show "length (filter spec_failed jobs) = 2"
    by (simp add: six_statuses_def)
qed

lemma classified_items_ok:
  "qm_getQueueStats e (queue_id q) = Inr st \<Longrightarrow>
   qm_getQueueItems e (queue_id q) (Num 0) (Num 1000) = Inr jobs \<Longrightarrow>
     classified_items e q = jobs"
  by (simp add: classified_items_def)

lemma inclusive_range_all:
  "int (length xs) \<le> b + 1 \<Longrightarrow> 0 \<le> b \<Longrightarrow> inclusive_range xs 0 b = xs"
  by (cases "xs = []") (auto simp add: inclusive_range_def Let_def min_def)

lemma store_engine_single:
  "qm_getSystemStats (store_engine [sq]) = Inr \<lparr>top_fields = [], system_fields = []\<rparr>"
  "qm_getAllQueues (store_engine [sq]) 1000 = Inr \<lparr>queues = [sq_queue sq], total = Some 1\<rparr>"
  "qm_getQueueStats (store_engine [sq]) (queue_id (sq_queue sq)) = Inr \<lparr>itemCount = Some (length (sq_items sq))\<rparr>"
  "qm_getQueueItems (store_engine [sq]) (queue_id (sq_queue sq)) (Num a) (Num b)
     = Inr (inclusive_range (sq_items sq) a b)"
  by (simp_all add: store_engine_def find_queue_def)

lemma getSystemStats_isl:
  "isl (getSystemStats d) \<longleftrightarrow>
     (\<exists>e. qm d = Some e \<and> (isl (qm_getSystemStats e) \<or> isl (qm_getAllQueues e 1000)))"
  by (auto simp add: getSystemStats_def Let_def split: option.splits sum.splits)

lemma getSystemStats_error:
  "getSystemStats d = Inl err \<longleftrightarrow>
     (\<exists>e. qm d = Some e \<and>
        (qm_getSystemStats e = Inl err
         \<or> (\<not> isl (qm_getSystemStats e) \<and> qm_getAllQueues e 1000 = Inl err)))"
  by (auto simp add: getSystemStats_def Let_def split: option.splits sum.splits)

lemma server_getSystemStats_eq:
  "qm d = Some e \<Longrightarrow> server_getSystemStats e (connectedClients d) = getSystemStats d"
  by (simp add: server_getSystemStats_def getSystemStats_def)

lemma server_getSystemStats_error:
  "server_getSystemStats e clients = Inl err \<longleftrightarrow>
     (qm_getSystemStats e = Inl err
      \<or> (\<not> isl (qm_getSystemStats e) \<and> qm_getAllQueues e 1000 = Inl err))"
  by (auto simp add: server_getSystemStats_def Let_def split: sum.splits)

lemma queue_step_stats_raise:
  "isl (qm_getQueueStats e (queue_id q)) \<Longrightarrow> queue_step e t q = t"
  by (auto simp add: queue_step_def split: sum.splits)

lemma classified_items_raise:
  "isl (qm_getQueueStats e (queue_id q)) \<or> isl (qm_getQueueItems e (queue_id q) (Num 0) (Num 1000))
   \<Longrightarrow> classified_items e q = []"
  by (auto simp add: classified_items_def split: sum.splits)

section \<open>Creating a queue\<close>

lemma post_queues_invalid:
  "validationResult b \<noteq> [] \<Longrightarrow>
     post_queues d b = (\<lparr>code = 400, payload = ValidationBody (validationResult b)\<rparr>, [])"
  by (simp add: post_queues_def Let_def res_status_json_def)

lemma post_queues_no_engine:
  "validationResult b = [] \<Longrightarrow> qm d = None \<Longrightarrow>
     post_queues d b
       = (\<lparr>code = 503, payload = ErrorBody ''QueueManager not available''\<rparr>, [])"
  by (simp add: post_queues_def Let_def res_status_json_def)

lemma post_queues_calls:
  "validationResult b = [] \<Longrightarrow> qm d = Some e \<Longrightarrow>
     snd (post_queues d b)
       = [CreateQueue (body_name b) (body_queueId b)
            \<lparr>description = body_description b,
             maxSize = js_or (body_maxSize b) (JNum 10000)\<rparr>]"
  by (simp add: post_queues_def Let_def)

lemma server_post_queues_calls:
  "snd (server_post_queues e b)
     = [CreateQueue (body_name b) (body_queueId b)
          \<lparr>description = body_description b,
           maxSize = js_or (body_maxSize b) (JNum 10000)\<rparr>]"
  by (simp add: server_post_queues_def Let_def)

section \<open>Client events and the count\<close>

lemma feats_client_step: "feats (fst (client_step d ev)) = feats d"
  by (cases ev) (simp_all add: client_step_def Let_def split: sum.splits)

lemma count_connect:
  "websocket (feats d) \<Longrightarrow> sid |\<notin>| connectedClients d \<Longrightarrow>
     client_count (fst (client_step d (Connect sid))) = client_count d + 1"
  by (simp add: client_step_def client_count_def set_size_def set_add_def Let_def
      fcard_finsert_disjoint)

lemma count_disconnect:
  "websocket (feats d) \<Longrightarrow> sid |\<in>| connectedClients d \<Longrightarrow>
     Suc (client_count (fst (client_step d (Disconnect sid)))) = client_count d"
  using fcard_Suc_fminus1 [of sid "connectedClients d"]
  by (simp add: client_step_def client_count_def set_size_def set_delete_def Let_def)

lemma count_get_stats:
  "client_count (fst (client_step d (GetStats sid))) = client_count d"
  by (simp add: client_step_def client_count_def split: sum.splits)

lemma count_subscribe:
  "client_count (fst (client_step d (SubscribeQueue sid q))) = client_count d"
  by (simp add: client_step_def client_count_def)

lemma count_unsubscribe:
  "client_count (fst (client_step d (UnsubscribeQueue sid q))) = client_count d"
  by (simp add: client_step_def client_count_def)

lemma client_steps_Cons:
  "client_steps d (ev # evs) = client_steps (fst (client_step d ev)) evs"
  by (simp add: client_steps_def)

lemma count_client_steps:
  "websocket (feats d) \<Longrightarrow> deliverable d evs \<Longrightarrow>
     int (client_count (client_steps d evs))
       = int (client_count d) + int (length (filter is_connect evs))
           - int (length (filter is_disconnect evs))"
proof (induction evs arbitrary: d)
  case Nil
  then show ?case by (simp add: client_steps_def)
next
  case (Cons ev evs)
  let ?d' = "fst (client_step d ev)"
  from Cons.prems have w: "websocket (feats ?d')" and dl: "deliverable ?d' evs"
    by (simp_all add: feats_client_step)
  note ih = Cons.IH [OF w dl]
  show ?case
  proof (cases ev)
    case (Connect sid)
    with Cons.prems have "client_count ?d' = client_count d + 1"
      by (simp add: count_connect)
    with ih Connect show ?thesis by (simp add: client_steps_Cons)
  next
    case (GetStats sid)
    with ih show ?thesis by (simp add: client_steps_Cons count_get_stats)
  next
    case (SubscribeQueue sid q)
    with ih show ?thesis by (simp add: client_steps_Cons count_subscribe)
  next
    case (UnsubscribeQueue sid q)
    with ih show ?thesis by (simp add: client_steps_Cons count_unsubscribe)
  next
    case (Disconnect sid)
    with Cons.prems have "Suc (client_count ?d') = client_count d"
      by (simp add: count_disconnect)
    with ih Disconnect show ?thesis by (simp add: client_steps_Cons)
  qed
qed

lemma connect_subscribe_disconnect:
  assumes "websocket (feats d)" and "sid |\<notin>| connectedClients d"
  shows "deliverable d [Connect sid, SubscribeQueue sid q, Disconnect sid]"
  using assms by (simp add: client_step_def set_add_def Let_def)

section \<open>The listeners of the relay\<close>

lemma listeners_by_name:
  assumes "qm d = Some e" and "hasEventEmitter e"
  shows "emitter_emit (setupRealtimeEvents d) ''queueCreated'' data = [IoEmit ''queueCreated'' data]"
    and "emitter_emit (setupRealtimeEvents d) ''queueDeleted'' data = [IoEmit ''queueDeleted'' data]"
    and "emitter_emit (setupRealtimeEvents d) ''queuePaused'' data = [IoEmit ''queuePaused'' data]"
    and "emitter_emit (setupRealtimeEvents d) ''queueResumed'' data = [IoEmit ''queueResumed'' data]"
    and "emitter_emit (setupRealtimeEvents d) ''jobAdded'' data = [IoEmit ''jobAdded'' data]"
    and "emitter_emit (setupRealtimeEvents d) ''jobProcessed'' data = [IoEmit ''jobProcessed'' data]"
    and "emitter_emit (setupRealtimeEvents d) ''jobFailed'' data = [IoEmit ''jobFailed'' data]"
    and "emitter_emit (setupRealtimeEvents d) ''jobCancelled'' data = [IoEmit ''jobCancelled'' data]"
  using assms by (simp_all add: setupRealtimeEvents_def emitter_emit_def)

lemma relay_events_cases:
  "name \<in> set relay_events \<Longrightarrow>
     name = ''queueCreated'' \<or> name = ''queueDeleted'' \<or> name = ''queuePaused''
     \<or> name = ''queueResumed'' \<or> name = ''jobAdded'' \<or> name = ''jobProcessed''
     \<or> name = ''jobFailed'' \<or> name = ''jobCancelled''"
  by (simp add: relay_events_def)

lemma setupRealtimeEvents_wired:
  assumes "qm d = Some e" and "hasEventEmitter e" and "name \<in> set relay_events"
  shows "emitter_emit (setupRealtimeEvents d) name data = [IoEmit name data]"
  using relay_events_cases [OF assms(3)]
  by (elim disjE) (simp_all only: listeners_by_name [OF assms(1,2)])

lemma relay_listeners_rooms:
  "relay_listeners (d\<lparr>io_rooms := r\<rparr>) = relay_listeners d"
  by (simp add: relay_listeners_def setupRealtimeEvents_def)

lemma relay_emits_once:
  "websocket (feats d) \<Longrightarrow> qm d = Some e \<Longrightarrow> hasEventEmitter e \<Longrightarrow>
   name \<in> set relay_events \<Longrightarrow>
     emitter_emit (relay_listeners d) name data = [IoEmit name data]"
  by (simp add: relay_listeners_def setupRealtimeEvents_wired)

section \<open>Listing, sorting and truncating\<close>

lemma parseInt_2: "parseInt (js_str ''2'') = Num 2"
  by (simp add: parseInt_def js_str_def js_whitespace_def radix_digit_def digit_value_def
      digits_number_def round_double_def)

lemma round_double_small: "\<bar>n\<bar> \<le> 2 ^ 53 \<Longrightarrow> round_double n = Num n"
proof -
  assume "\<bar>n\<bar> \<le> 2 ^ 53"
  then have "nat \<bar>n\<bar> \<le> 2 ^ 53"
    by (simp add: nat_le_iff)
  then show ?thesis
    by (simp add: round_double_def Let_def)
qed

lemma js_minus_one_nat: "L \<le> 2 ^ 53 \<Longrightarrow> js_minus_one (Num (int L)) = Num (int L - 1)"
  by (simp add: round_double_small)

lemma jobs_step_queue_jobs: "jobs_step e lim acc q = acc @ queue_jobs e lim q"
  by (simp add: jobs_step_def queue_jobs_def split: sum.splits)

lemma foldl_jobs_step:
  "foldl (jobs_step e lim) acc qs = acc @ concat (map (queue_jobs e lim) qs)"
  by (induction qs arbitrary: acc) (simp_all add: jobs_step_queue_jobs)

lemma sort_newest_first_valid:
  "valid_dates time xs \<Longrightarrow> sort_newest_first time xs = Some (sort_key (\<lambda>x. - time x) xs)"
  by (simp add: sort_newest_first_def)

lemma newest_first_sort_key: "newest_first time (sort_key (\<lambda>x. - time x) xs)"
proof -
  have "sorted (map (\<lambda>x. - time x) (sort_key (\<lambda>x. - time x) xs))"
    by (rule sorted_sort_key)
  then show ?thesis
    by (simp add: newest_first_def sorted_wrt_map)
qed

lemma newest_first_take: "newest_first time xs \<Longrightarrow> newest_first time (take n xs)"
  by (simp add: newest_first_def sorted_wrt_take)

lemma js_slice0_nat: "js_slice0 xs (Num (int n)) = take n xs"
  by simp

text \<open>
  A limit that is no number gives the empty array; a negative limit drops that many
  entries from the end.
\<close>

lemma js_slice0_other:
  "js_slice0 xs NaN = []"
  "k < 0 \<Longrightarrow> js_slice0 xs (Num k) = take (length xs - nat (- k)) xs"
proof -
  show "js_slice0 xs NaN = []"
    by simp
  assume "k < 0"
  then have "nat (int (length xs) + k) = length xs - nat (- k)"
    by linarith
  with \<open>k < 0\<close> show "js_slice0 xs (Num k) = take (length xs - nat (- k)) xs"
    by simp
qed

lemma get_jobs_ok:
  assumes "qm d = Some e" and "qm_getAllQueues e 1000 = Inr qs"
  shows "get_jobs d limit =
     (case sort_newest_first (\<lambda>a. addedAt (item a))
             (concat (map (queue_jobs e (parsed_limit 100 limit)) (queues qs))) of
        Some sorted_jobs \<Rightarrow>
          \<lparr>code = 200, payload = JobsBody (js_slice0 sorted_jobs (parsed_limit 100 limit))\<rparr>
      | None \<Rightarrow>
          \<lparr>code = 200,
           payload = JobsInSomeOrderBody
             (concat (map (queue_jobs e (parsed_limit 100 limit)) (queues qs)))
             (parsed_limit 100 limit)\<rparr>)"
  using assms
  by (simp add: get_jobs_def Let_def foldl_jobs_step res_json_def split: option.splits)

lemma set_sort_newest_first:
  "sort_newest_first time xs = Some ys \<Longrightarrow> mset ys = mset xs"
  by (auto simp add: sort_newest_first_def split: if_splits)

text \<open>
  Whatever the order, an answer is the first entries, up to the limit, of an arrangement
  of the fetched jobs.
\<close>

lemma possible_jobs_arrangement:
  assumes "qm d = Some e" and "qm_getAllQueues e 1000 = Inr qs"
    and "parsed_limit 100 limit = Num (int L)"
    and "possible_jobs (get_jobs d limit) ys"
  shows "\<exists>p. mset p = mset (concat (map (queue_jobs e (Num (int L))) (queues qs)))
            \<and> ys = take L p"
proof (cases "sort_newest_first (\<lambda>a. addedAt (item a))
                (concat (map (queue_jobs e (Num (int L))) (queues qs)))")
  case None
  with assms(4) show ?thesis
    by (simp add: get_jobs_ok [OF assms(1,2)] assms(3) possible_jobs_def)
next
  case (Some sorted_jobs)
  with assms(4) have "ys = take L sorted_jobs"
    by (simp add: get_jobs_ok [OF assms(1,2)] assms(3) possible_jobs_def)
  with set_sort_newest_first [OF Some] show ?thesis
    by blast
qed

lemma queue_jobs_member:
  assumes "a \<in> set (queue_jobs e lim q)"
  shows "queueId a = queue_id q \<and> queueName a = queue_name q
     \<and> (\<exists>jobs. qm_getQueueItems e (queue_id q) (Num 0) (js_minus_one lim)
                  = Inr jobs \<and> item a \<in> set jobs)"
proof (cases "qm_getQueueItems e (queue_id q) (Num 0) (js_minus_one lim)")
  case (Inl err)
  with assms show ?thesis by (simp add: queue_jobs_def)
next
  case (Inr jobs)
  with assms show ?thesis by (auto simp add: queue_jobs_def annotate_def)
qed

lemma sort_three_newest:
  fixes time :: "'a \<Rightarrow> int"
  assumes "time a < time b" and "time b < time c"
  shows "take 2 (sort_key (\<lambda>x. - time x) [a, b, c]) = [c, b]"
    and "take 2 (sort_key (\<lambda>x. - time x) [a, c, b]) = [c, b]"
    and "take 2 (sort_key (\<lambda>x. - time x) [b, a, c]) = [c, b]"
    and "take 2 (sort_key (\<lambda>x. - time x) [b, c, a]) = [c, b]"
    and "take 2 (sort_key (\<lambda>x. - time x) [c, a, b]) = [c, b]"
    and "take 2 (sort_key (\<lambda>x. - time x) [c, b, a]) = [c, b]"
  using assms by simp_all

section \<open>The recent activity\<close>

text \<open>
  For a limit that reads as the natural number \<open>L\<close> and items whose dates are valid, the
  answer is the first \<open>L\<close> entries of the newest-first sort of the projected items of all
  queues; a queue whose item fetch raises is left out and the answer is still 200.
\<close>

lemma activity_step_queue_activity: "activity_step e acts q = acts @ queue_activity e q"
  by (simp add: activity_step_def queue_activity_def split: sum.splits)

lemma foldl_activity_step:
  "foldl (activity_step e) acts qs = acts @ concat (map (queue_activity e) qs)"
  by (induction qs arbitrary: acts) (simp_all add: activity_step_queue_activity)

lemma get_activity_recent_ok:
  assumes "qm d = Some e" and "qm_getAllQueues e 1000 = Inr qs"
    and "valid_dates act_timestamp (concat (map (queue_activity e) (queues qs)))"
  shows "get_activity_recent d limit =
     \<lparr>code = 200,
      payload = ActivityBody
        (js_slice0
           (sort_key (\<lambda>a. - act_timestamp a) (concat (map (queue_activity e) (queues qs))))
           (parsed_limit 20 limit))\<rparr>"
  using assms
  by (simp add: get_activity_recent_def Let_def foldl_activity_step res_json_def
      sort_newest_first_valid)

lemma activity_recent_sorted_truncated:
  assumes "qm d = Some e" and "qm_getAllQueues e 1000 = Inr qs"
    and "valid_dates act_timestamp (concat (map (queue_activity e) (queues qs)))"
    and "parsed_limit 20 limit = Num (int L)"
  shows "activity_of (get_activity_recent d limit)
           = take L (sort_key (\<lambda>a. - act_timestamp a)
                       (concat (map (queue_activity e) (queues qs))))"
    and "length (activity_of (get_activity_recent d limit)) \<le> L"
    and "newest_first act_timestamp (activity_of (get_activity_recent d limit))"
  by (simp_all add: get_activity_recent_ok [OF assms(1,2,3)] assms(4) activity_of_def
      newest_first_take newest_first_sort_key)

lemma queue_activity_raise:
  "isl (qm_getQueueItems e (queue_id q) (Num 0) (Num 10)) \<Longrightarrow> queue_activity e q = []"
  by (auto simp add: queue_activity_def split: sum.splits)

lemma activity_skips_failed_queue:
  assumes "qm d = Some e" and "qm_getAllQueues e 1000 = Inr qs"
    and "valid_dates act_timestamp (concat (map (queue_activity e) (queues qs)))"
    and "parsed_limit 20 limit = Num (int L)"
    and "queues qs = qs1 @ q # qs2"
    and "isl (qm_getQueueItems e (queue_id q) (Num 0) (Num 10))"
  shows "get_activity_recent d limit =
     \<lparr>code = 200,
      payload = ActivityBody
        (take L (sort_key (\<lambda>a. - act_timestamp a)
                   (concat (map (queue_activity e) (qs1 @ qs2)))))\<rparr>"
  by (simp add: get_activity_recent_ok [OF assms(1,2,3)] assms(4,5)
      queue_activity_raise [OF assms(6)])

section \<open>The in-memory engine\<close>

lemma find_queue_distinct:
  "distinct (map (\<lambda>sq. queue_id (sq_queue sq)) store) \<Longrightarrow> sq \<in> set store \<Longrightarrow>
     find_queue store (queue_id (sq_queue sq)) = Some sq"
  unfolding find_queue_def
  by (induction store) (auto simp add: rev_image_eqI)

lemma store_engine_queue:
  assumes "distinct (map (\<lambda>sq. queue_id (sq_queue sq)) store)" and "sq \<in> set store"
  shows "declared_count (store_engine store) (sq_queue sq) = length (sq_items sq)"
    and "length (sq_items sq) \<le> 1000 \<Longrightarrow>
           classified_items (store_engine store) (sq_queue sq) = sq_items sq"
  using find_queue_distinct [OF assms]
  by (simp_all add: declared_count_def classified_items_def store_engine_def or_zero_def
      inclusive_range_all)

lemma store_engine_top:
  "qm_getSystemStats (store_engine store) = Inr \<lparr>top_fields = [], system_fields = []\<rparr>"
  "length store \<le> 1000 \<Longrightarrow>
     qm_getAllQueues (store_engine store) 1000
       = Inr \<lparr>queues = map sq_queue store, total = Some (length store)\<rparr>"
  by (simp_all add: store_engine_def)

section \<open>Claims\<close>

subsection \<open>C1: the status buckets\<close>

text \<open>
  C1. One job moves the active count by one exactly when its status is pending or
  processing, the failed count by one exactly when its status is failed or timed out, and
  nothing else; the declared total is not touched. When the listing holds one queue and
  the engine returns for it one job of each of the six statuses, in any order, the
  computed stats have 2 active and 2 failed jobs.
\<close>

theorem C1_status_buckets:
  "activeJobs (count_job t j)
     = activeJobs t + (if status j \<in> {''pending'', ''processing''} then 1 else 0)
   \<and> failedJobs (count_job t j)
     = failedJobs t + (if status j \<in> {''failed'', ''timed_out''} then 1 else 0)
   \<and> totalJobs (count_job t j) = totalJobs t
   \<and> (qm d = Some e \<and> qm_getSystemStats e = Inr ss \<and> qm_getAllQueues e 1000 = Inr qs
        \<and> queues qs = [q] \<and> qm_getQueueStats e (queue_id q) = Inr st
        \<and> qm_getQueueItems e (queue_id q) (Num 0) (Num 1000) = Inr jobs
        \<and> mset (map status jobs) = mset six_statuses
        \<longrightarrow> (\<exists>s. getSystemStats d = Inr s \<and> snap_activeJobs s = 2 \<and> snap_failedJobs s = 2))"
proof -
  have ex: "\<exists>s. getSystemStats d = Inr s \<and> snap_activeJobs s = 2 \<and> snap_failedJobs s = 2"
    if e: "qm d = Some e" and ss: "qm_getSystemStats e = Inr ss"
      and qs: "qm_getAllQueues e 1000 = Inr qs" and q: "queues qs = [q]"
      and st: "qm_getQueueStats e (queue_id q) = Inr st"
      and jobs: "qm_getQueueItems e (queue_id q) (Num 0) (Num 1000) = Inr jobs"
      and six: "mset (map status jobs) = mset six_statuses"
  proof -
    have items: "classified_items e q = jobs"
      using st jobs by (rule classified_items_ok)
    from getSystemStats_Inr [OF e ss qs] show ?thesis
      by (auto simp add: q items six_statuses_buckets [OF six])
  qed
  show ?thesis
    using ex by (simp add: count_job_def)
qed

text \<open>The spec's example queue, in the in-memory engine.\<close>

theorem C1_status_buckets_witness:
  "\<exists>s. getSystemStats (dashboard_on (store_engine [six_status_queue])) = Inr s
        \<and> snap_activeJobs s = 2 \<and> snap_failedJobs s = 2"
proof -
  let ?e = "store_engine [six_status_queue]"
  let ?q = "sq_queue six_status_queue"
  have len: "length (sq_items six_status_queue) = 6"
    by (simp add: six_status_queue_def six_statuses_def)
  have e: "qm (dashboard_on ?e) = Some ?e"
    by (simp add: dashboard_on_def)
  have q: "queues \<lparr>queues = [?q], total = Some 1\<rparr> = [?q]"
    by simp
  have jobs: "qm_getQueueItems ?e (queue_id ?q) (Num 0) (Num 1000)
      = Inr (sq_items six_status_queue)"
    by (simp add: store_engine_single inclusive_range_all len)
  have six: "mset (map status (sq_items six_status_queue)) = mset six_statuses"
    by (simp add: six_status_queue_def six_statuses_def mk_job_def)
  from C1_status_buckets [of _ _ "dashboard_on ?e" ?e _ _ ?q _ "sq_items six_status_queue"]
    e store_engine_single(1) [of six_status_queue] store_engine_single(2) [of six_status_queue]
    q store_engine_single(3) [of six_status_queue] jobs six
  show ?thesis
    by blast
qed

subsection \<open>C2: which failures abort the stats computation\<close>

text \<open>
  C2, as stated, fails: the computation also fails when the engine's own
  \<open>getSystemStats\<close> call raises while the listing call succeeds, and a queue whose item
  fetch raises has already added its declared item count to the total.
\<close>

theorem C2_counterexample:
  "getSystemStats (dashboard_on stats_down_engine) = Inl ''stats unavailable''
   \<and> \<not> isl (qm_getAllQueues stats_down_engine 1000)
   \<and> isl (qm_getQueueItems items_down_engine ''q1'' (Num 0) (Num 1000))
   \<and> getSystemStats (dashboard_on items_down_engine)
       = Inr \<lparr>snap_top = [], snap_system_rest = [], snap_totalQueues = 1,
              snap_totalJobs = 6, snap_activeJobs = 0, snap_failedJobs = 0,
              snap_connectedClients = 0\<rparr>"
  by (simp add: getSystemStats_def dashboard_on_def demo_dashboard_def stats_down_engine_def
      items_down_engine_def store_engine_def six_status_queue_def six_statuses_def
      find_queue_def mk_queue_def queue_step_def or_zero_def zero_totals_def set_size_def)

text \<open>
  C2, amended. With an engine present, \<open>getSystemStats\<close> fails exactly when the engine's
  own stats call or the listing call raises, and with that call's error; no per-queue
  failure aborts it. The same holds for the \<open>getSystemStats\<close> of the stand-alone server.
  A queue whose stats fetch raises leaves all three totals as they were; a queue whose
  item fetch raises leaves the active and failed counts as they were.
\<close>

theorem C2_only_top_level_failures_abort:
  "(getSystemStats d = Inl err \<longleftrightarrow>
      (\<exists>e. qm d = Some e \<and>
         (qm_getSystemStats e = Inl err
          \<or> (\<not> isl (qm_getSystemStats e) \<and> qm_getAllQueues e 1000 = Inl err))))
   \<and> (server_getSystemStats e clients = Inl err \<longleftrightarrow>
        (qm_getSystemStats e = Inl err
         \<or> (\<not> isl (qm_getSystemStats e) \<and> qm_getAllQueues e 1000 = Inl err)))
   \<and> (qm d = Some e \<and> \<not> isl (qm_getSystemStats e) \<and> \<not> isl (qm_getAllQueues e 1000)
        \<longrightarrow> \<not> isl (getSystemStats d))
   \<and> (isl (qm_getQueueStats e (queue_id q)) \<longrightarrow> queue_step e t q = t)
   \<and> (isl (qm_getQueueItems e (queue_id q) (Num 0) (Num 1000)) \<longrightarrow>
        activeJobs (queue_step e t q) = activeJobs t
        \<and> failedJobs (queue_step e t q) = failedJobs t)"
  by (simp add: getSystemStats_error server_getSystemStats_error getSystemStats_isl
      queue_step_stats_raise queue_step_active queue_step_failed classified_items_raise)

text \<open>Each of the three failures, in an engine where it happens.\<close>

theorem C2_only_top_level_failures_abort_witness:
  "isl (qm_getQueueStats queue_stats_down_engine (queue_id (sq_queue six_status_queue)))
   \<and> queue_step queue_stats_down_engine zero_totals (sq_queue six_status_queue) = zero_totals
   \<and> isl (qm_getQueueItems items_down_engine (queue_id (sq_queue six_status_queue)) (Num 0) (Num 1000))
   \<and> activeJobs (queue_step items_down_engine zero_totals (sq_queue six_status_queue)) = 0
   \<and> failedJobs (queue_step items_down_engine zero_totals (sq_queue six_status_queue)) = 0
   \<and> getSystemStats (dashboard_on stats_down_engine) = Inl ''stats unavailable''"
proof -
  let ?q = "sq_queue six_status_queue"
  have h1: "isl (qm_getQueueStats queue_stats_down_engine (queue_id ?q))"
    by (simp add: queue_stats_down_engine_def)
  have h2: "isl (qm_getQueueItems items_down_engine (queue_id ?q) (Num 0) (Num 1000))"
    by (simp add: items_down_engine_def)
  have h3: "qm (dashboard_on stats_down_engine) = Some stats_down_engine
      \<and> qm_getSystemStats stats_down_engine = Inl ''stats unavailable''"
    by (simp add: dashboard_on_def stats_down_engine_def)
  have z: "activeJobs zero_totals = 0" "failedJobs zero_totals = 0"
    by (simp_all add: zero_totals_def)
  from C2_only_top_level_failures_abort
         [of "dashboard_on stats_down_engine" "''stats unavailable''"
             queue_stats_down_engine _ ?q zero_totals] h1 h3
  have a: "queue_step queue_stats_down_engine zero_totals ?q = zero_totals"
    and c: "getSystemStats (dashboard_on stats_down_engine) = Inl ''stats unavailable''"
    by blast+
  from C2_only_top_level_failures_abort
         [of "dashboard_on stats_down_engine" "''stats unavailable''"
             items_down_engine _ ?q zero_totals] h2 z
  have b: "activeJobs (queue_step items_down_engine zero_totals ?q) = 0
      \<and> failedJobs (queue_step items_down_engine zero_totals ?q) = 0"
    by simp
  from h1 h2 a b c show ?thesis by simp
qed

subsection \<open>C3: the aggregate counts as sums over the listing\<close>

text \<open>
  C3, as stated, fails. \<open>totalJobs\<close> is the sum of the item counts the queues' stats
  declare, not a count over the classified items: a queue of 1500 pending jobs gives a
  total of 1500, where at most 1000 classified items would give 1000. For the same queue
  the active count is 1001, not 1000: the range 0 to 1000 that the code asks for has 1001
  places.
\<close>

theorem C3_counterexample:
  "map_sum id snap_totalJobs (getSystemStats (dashboard_on (store_engine [big_queue])))
     = Inr 1500
   \<and> totalJobs (spec_first_1000 [big_queue]) = 1000
   \<and> map_sum id snap_totalJobs (getSystemStats (dashboard_on (store_engine [big_queue])))
     \<noteq> Inr (totalJobs (spec_first_1000 [big_queue]))
   \<and> map_sum id snap_activeJobs (getSystemStats (dashboard_on (store_engine [big_queue])))
     = Inr 1001
   \<and> activeJobs (spec_first_1000 [big_queue]) = 1000"
proof -
  let ?e = "store_engine [big_queue]"
  let ?j = "mk_job ''j'' ''pending'' 0"
  have "qm (dashboard_on ?e) = Some ?e"
    by (simp add: dashboard_on_def)
  from getSystemStats_Inr [OF this store_engine_single(1) store_engine_single(2)]
  obtain s where s: "getSystemStats (dashboard_on ?e) = Inr s"
    and t: "snap_totalJobs s = (\<Sum>q\<leftarrow>[sq_queue big_queue]. declared_count ?e q)"
    and a: "snap_activeJobs s
        = (\<Sum>q\<leftarrow>[sq_queue big_queue]. length (filter spec_active (classified_items ?e q)))"
    by auto
  have items: "sq_items big_queue = replicate 1500 ?j"
    by (simp add: big_queue_def)
  have act: "spec_active ?j"
    by (simp add: spec_active_def mk_job_def)
  have "length (sq_items big_queue) = 1500"
    by (simp add: items)
  then have decl: "declared_count ?e (sq_queue big_queue) = 1500"
    by (simp add: declared_count_def store_engine_single or_zero_def)
  have "inclusive_range (replicate 1500 ?j) 0 1000 = replicate 1001 ?j"
    by (simp add: inclusive_range_def)
  then have "classified_items ?e (sq_queue big_queue) = replicate 1001 ?j"
    by (simp add: classified_items_def store_engine_single items)
  then have cls: "length (filter spec_active (classified_items ?e (sq_queue big_queue))) = 1001"
    by (simp add: act)
  have spec_t: "totalJobs (spec_first_1000 [big_queue]) = 1000"
    by (simp add: spec_first_1000_def items)
  have spec_a: "activeJobs (spec_first_1000 [big_queue]) = 1000"
    by (simp add: spec_first_1000_def items act)
  from s t a decl cls spec_t spec_a show ?thesis
    by simp
qed

text \<open>
  C3, amended. When the engine's stats call and the listing call succeed, \<open>totalJobs\<close> is
  the sum, over the queues of that one listing, of the item counts the per-queue stats
  declare (nothing for a queue whose stats fetch raises). In every engine state where no
  queue brings more than 1000 items to the classification, \<open>activeJobs\<close> and
  \<open>failedJobs\<close> are the sums, over the queues of the listing, of the numbers of active and
  of failed jobs among at most the first 1000 items of the queue (no items for a queue
  whose stats or item fetch raises). So for queues with different ids, at most 1000 of
  them and none of more than 1000 items, the two counts are those of the spec's
  invariant. Nothing is said about a queue of more than 1000 items.
\<close>

theorem C3_aggregate_sums:
  "(qm d = Some e \<and> qm_getSystemStats e = Inr ss \<and> qm_getAllQueues e 1000 = Inr qs \<longrightarrow>
      (\<exists>s. getSystemStats d = Inr s
         \<and> snap_totalJobs s = (\<Sum>q\<leftarrow>queues qs. declared_count e q)
         \<and> (list_all (\<lambda>q. length (classified_items e q) \<le> 1000) (queues qs) \<longrightarrow>
              snap_activeJobs s
                = (\<Sum>q\<leftarrow>queues qs. length (filter spec_active (take 1000 (classified_items e q))))
              \<and> snap_failedJobs s
                = (\<Sum>q\<leftarrow>queues qs. length (filter spec_failed (take 1000 (classified_items e q)))))))
   \<and> (distinct (map (\<lambda>sq. queue_id (sq_queue sq)) store) \<and> length store \<le> 1000
        \<and> list_all (\<lambda>sq. length (sq_items sq) \<le> 1000) store \<longrightarrow>
      (\<exists>s. getSystemStats (dashboard_on (store_engine store)) = Inr s
         \<and> snap_activeJobs s = activeJobs (spec_first_1000 store)
         \<and> snap_failedJobs s = failedJobs (spec_first_1000 store)
         \<and> snap_totalJobs s = (\<Sum>sq\<leftarrow>store. length (sq_items sq))))"
proof (intro conjI impI)
  assume "qm d = Some e \<and> qm_getSystemStats e = Inr ss \<and> qm_getAllQueues e 1000 = Inr qs"
  then have e: "qm d = Some e" and ss: "qm_getSystemStats e = Inr ss"
    and qs: "qm_getAllQueues e 1000 = Inr qs"
    by simp_all
  from getSystemStats_Inr [OF e ss qs]
  obtain s where s: "getSystemStats d = Inr s"
    and t: "snap_totalJobs s = (\<Sum>q\<leftarrow>queues qs. declared_count e q)"
    and a: "snap_activeJobs s
        = (\<Sum>q\<leftarrow>queues qs. length (filter spec_active (classified_items e q)))"
    and f: "snap_failedJobs s
        = (\<Sum>q\<leftarrow>queues qs. length (filter spec_failed (classified_items e q)))"
    by auto
  have "snap_activeJobs s
          = (\<Sum>q\<leftarrow>queues qs. length (filter spec_active (take 1000 (classified_items e q))))
        \<and> snap_failedJobs s
          = (\<Sum>q\<leftarrow>queues qs. length (filter spec_failed (take 1000 (classified_items e q))))"
    if "list_all (\<lambda>q. length (classified_items e q) \<le> 1000) (queues qs)"
  proof -
    from that have "take 1000 (classified_items e q) = classified_items e q"
      if "q \<in> set (queues qs)" for q
      using that by (simp add: list_all_iff)
    then have eq: "map (\<lambda>q. length (filter P (take 1000 (classified_items e q)))) (queues qs)
        = map (\<lambda>q. length (filter P (classified_items e q))) (queues qs)" for P
      by (intro map_cong) simp_all
    from a f show ?thesis
      by (simp only: eq simp_thms)
  qed
  with s t show "\<exists>s. getSystemStats d = Inr s
         \<and> snap_totalJobs s = (\<Sum>q\<leftarrow>queues qs. declared_count e q)
         \<and> (list_all (\<lambda>q. length (classified_items e q) \<le> 1000) (queues qs) \<longrightarrow>
              snap_activeJobs s
                = (\<Sum>q\<leftarrow>queues qs. length (filter spec_active (take 1000 (classified_items e q))))
              \<and> snap_failedJobs s
                = (\<Sum>q\<leftarrow>queues qs. length (filter spec_failed (take 1000 (classified_items e q)))))"
    by blast
next
  let ?e = "store_engine store"
  assume "distinct (map (\<lambda>sq. queue_id (sq_queue sq)) store) \<and> length store \<le> 1000
        \<and> list_all (\<lambda>sq. length (sq_items sq) \<le> 1000) store"
  then have dist: "distinct (map (\<lambda>sq. queue_id (sq_queue sq)) store)"
    and len: "length store \<le> 1000"
    and small: "\<And>sq. sq \<in> set store \<Longrightarrow> length (sq_items sq) \<le> 1000"
    by (simp_all add: list_all_iff)
  have e: "qm (dashboard_on ?e) = Some ?e"
    by (simp add: dashboard_on_def)
  from getSystemStats_Inr [OF e store_engine_top(1) store_engine_top(2) [OF len]]
  obtain s where s: "getSystemStats (dashboard_on ?e) = Inr s"
    and t: "snap_totalJobs s = (\<Sum>sq\<leftarrow>store. declared_count ?e (sq_queue sq))"
    and a: "snap_activeJobs s
        = (\<Sum>sq\<leftarrow>store. length (filter spec_active (classified_items ?e (sq_queue sq))))"
    and f: "snap_failedJobs s
        = (\<Sum>sq\<leftarrow>store. length (filter spec_failed (classified_items ?e (sq_queue sq))))"
    by (auto simp add: comp_def)
  have decl: "map (\<lambda>sq. declared_count ?e (sq_queue sq)) store
      = map (\<lambda>sq. length (sq_items sq)) store"
    by (simp add: store_engine_queue(1) [OF dist])
  have cls: "map (\<lambda>sq. length (filter P (classified_items ?e (sq_queue sq)))) store
      = map (\<lambda>sq. length (filter P (take 1000 (sq_items sq)))) store" for P
    by (simp add: store_engine_queue(2) [OF dist] small)
  from s t a f show "\<exists>s. getSystemStats (dashboard_on ?e) = Inr s
         \<and> snap_activeJobs s = activeJobs (spec_first_1000 store)
         \<and> snap_failedJobs s = failedJobs (spec_first_1000 store)
         \<and> snap_totalJobs s = (\<Sum>sq\<leftarrow>store. length (sq_items sq))"
    by (simp add: decl cls spec_first_1000_def)
qed

text \<open>The six-status queue: 2 active, 2 failed, 6 declared.\<close>

theorem C3_aggregate_sums_witness:
  "\<exists>s. getSystemStats (dashboard_on (store_engine [six_status_queue])) = Inr s
     \<and> snap_activeJobs s = 2 \<and> snap_failedJobs s = 2 \<and> snap_totalJobs s = 6"
proof -
  let ?e = "store_engine [six_status_queue]"
  let ?q = "sq_queue six_status_queue"
  let ?qs = "\<lparr>queues = [?q], total = Some 1\<rparr>"
  have items: "sq_items six_status_queue
      = map (\<lambda>st. mk_job (''job-'' @ st) st 0) six_statuses"
    by (simp add: six_status_queue_def)
  have len: "length (sq_items six_status_queue) = 6"
    by (simp add: items six_statuses_def)
  have h1: "qm (dashboard_on ?e) = Some ?e \<and> qm_getSystemStats ?e
        = Inr \<lparr>top_fields = [], system_fields = []\<rparr> \<and> qm_getAllQueues ?e 1000 = Inr ?qs"
    by (simp add: dashboard_on_def store_engine_single)
  have h2: "distinct (map (\<lambda>sq. queue_id (sq_queue sq)) [six_status_queue])
      \<and> length [six_status_queue] \<le> 1000
      \<and> list_all (\<lambda>sq. length (sq_items sq) \<le> 1000) [six_status_queue]"
    by (simp add: len)
  have sa: "activeJobs (spec_first_1000 [six_status_queue]) = 2"
    by (simp add: spec_first_1000_def items six_statuses_def spec_active_def mk_job_def)
  have sf: "failedJobs (spec_first_1000 [six_status_queue]) = 2"
    by (simp add: spec_first_1000_def items six_statuses_def spec_failed_def mk_job_def)
  have decl: "declared_count ?e ?q = 6"
    by (simp add: declared_count_def store_engine_single or_zero_def len)
  from C3_aggregate_sums [of "dashboard_on ?e" ?e _ ?qs "[six_status_queue]"] h1 h2
  obtain s s' where s: "getSystemStats (dashboard_on ?e) = Inr s"
    and t: "snap_totalJobs s = (\<Sum>q\<leftarrow>queues ?qs. declared_count ?e q)"
    and s': "getSystemStats (dashboard_on ?e) = Inr s'"
    and a: "snap_activeJobs s' = activeJobs (spec_first_1000 [six_status_queue])"
    and f: "snap_failedJobs s' = failedJobs (spec_first_1000 [six_status_queue])"
    by blast
  from s s' have "s' = s"
    by simp
  with s t a f show ?thesis
    by (simp add: sa sf decl)
qed

subsection \<open>C4: the jobs of all queues, newest first\<close>

text \<open>
  C4, as stated, fails for an engine state in which a job's creation time is no valid
  date. With creation times 1, 8640000000000001 and 2 in one queue, the second is one
  millisecond past the range of dates: the comparator is \<open>NaN\<close> wherever it is involved,
  the order of the answer is left to the sort, and the jobs as fetched, where the job of
  time 1 comes before the job of time 2, are an answer the handler can give.
\<close>

theorem C4_counterexample:
  "payload (get_jobs (dashboard_on (store_engine [late_date_queue])) None)
     = JobsInSomeOrderBody
         (map (annotate (sq_queue late_date_queue)) (sq_items late_date_queue)) (Num 100)
   \<and> possible_jobs (get_jobs (dashboard_on (store_engine [late_date_queue])) None)
         (map (annotate (sq_queue late_date_queue)) (sq_items late_date_queue))
   \<and> map (\<lambda>a. addedAt (item a))
         (map (annotate (sq_queue late_date_queue)) (sq_items late_date_queue))
       = [1, 8640000000000001, 2]
   \<and> \<not> newest_first (\<lambda>a. addedAt (item a))
         (map (annotate (sq_queue late_date_queue)) (sq_items late_date_queue))"
proof -
  let ?e = "store_engine [late_date_queue]"
  let ?q = "sq_queue late_date_queue"
  let ?all = "map (annotate ?q) (sq_items late_date_queue)"
  have q: "qm (dashboard_on ?e) = Some ?e"
    by (simp add: dashboard_on_def)
  have len: "length (sq_items late_date_queue) = 3"
    by (simp add: late_date_queue_def)
  have p: "parsed_limit 100 None = Num 100"
    by (simp add: parsed_limit_def)
  have "qm_getQueueItems ?e (queue_id ?q) (Num 0) (Num 99) = Inr (sq_items late_date_queue)"
    by (simp add: store_engine_single inclusive_range_all len)
  then have fetched: "queue_jobs ?e (Num 100) ?q = ?all"
    by (simp add: queue_jobs_def round_double_small)
  have times: "map (\<lambda>a. addedAt (item a)) ?all = [1, 8640000000000001, 2]"
    by (simp add: late_date_queue_def annotate_def mk_job_def)
  have unsorted: "sort_newest_first (\<lambda>a. addedAt (item a)) ?all = None"
    by (simp add: sort_newest_first_def valid_dates_def time_value_def List.map_filter_def
        late_date_queue_def annotate_def mk_job_def)
  have r: "get_jobs (dashboard_on ?e) None
      = \<lparr>code = 200, payload = JobsInSomeOrderBody ?all (Num 100)\<rparr>"
    using get_jobs_ok [OF q store_engine_single(2), of None]
    by (simp add: p fetched unsorted)
  have "js_slice0 ?all (Num 100) = ?all"
    by (simp add: len)
  then have "mset ?all = mset ?all \<and> ?all = js_slice0 ?all (Num 100)"
    by simp
  then have "\<exists>p. mset p = mset ?all \<and> ?all = js_slice0 p (Num 100)"
    by (rule exI)
  then have poss: "possible_jobs (get_jobs (dashboard_on ?e) None) ?all"
    by (simp add: possible_jobs_def r del: js_slice0.simps)
  have "\<not> newest_first (\<lambda>a. addedAt (item a)) ?all"
    by (simp add: newest_first_def late_date_queue_def annotate_def mk_job_def)
  with r poss times show ?thesis
    by simp
qed

text \<open>
  C4, amended. For a limit that reads as the natural number \<open>L\<close> (100 when the query
  gives none), \<open>GET /api/jobs\<close> answers 200 with at most \<open>L\<close> entries, each an item fetched
  from some queue of the listing for the range 0 to \<open>L - 1\<close> and annotated with that
  queue's id and name. In every engine state where the creation times of the fetched jobs
  are valid dates, the answer is the first \<open>L\<close> entries of the stable newest-first sort of
  the fetched jobs, so no entry is older than a later one. With limit 2 over three
  queues that hold one job each, with three different valid creation times, the answer is
  the job with the latest time and then the job with the second latest.
\<close>

theorem C4_jobs_newest_first:
  assumes "qm d = Some e"
    and "qm_getAllQueues e 1000 = Inr qs"
    and "parsed_limit 100 limit = Num (int L)"
  shows "code (get_jobs d limit) = 200
     \<and> (\<forall>ys. possible_jobs (get_jobs d limit) ys \<longrightarrow>
           length ys \<le> L
           \<and> (\<forall>a \<in> set ys.
                 \<exists>q \<in> set (queues qs).
                   queueId a = queue_id q \<and> queueName a = queue_name q
                   \<and> (\<exists>jobs. qm_getQueueItems e (queue_id q) (Num 0)
                                 (js_minus_one (Num (int L))) = Inr jobs
                          \<and> item a \<in> set jobs)))
     \<and> (valid_dates (\<lambda>a. addedAt (item a))
            (concat (map (queue_jobs e (Num (int L))) (queues qs))) \<longrightarrow>
           payload (get_jobs d limit)
             = JobsBody (take L (sort_key (\<lambda>a. - addedAt (item a))
                                   (concat (map (queue_jobs e (Num (int L))) (queues qs)))))
           \<and> newest_first (\<lambda>a. addedAt (item a)) (jobs_of (get_jobs d limit)))
     \<and> (L \<le> 2 ^ 53 \<longrightarrow> js_minus_one (Num (int L)) = Num (int L - 1))
     \<and> parsed_limit 100 None = Num 100
     \<and> (L = 2 \<and> queues qs = [qa, qb, qc]
          \<and> qm_getQueueItems e (queue_id qa) (Num 0) (Num 1) = Inr [ja]
          \<and> qm_getQueueItems e (queue_id qb) (Num 0) (Num 1) = Inr [jb]
          \<and> qm_getQueueItems e (queue_id qc) (Num 0) (Num 1) = Inr [jc]
          \<and> distinct [addedAt ja, addedAt jb, addedAt jc]
          \<and> valid_dates addedAt [ja, jb, jc]
          \<longrightarrow> (\<exists>x y z. {x, y, z} = {annotate qa ja, annotate qb jb, annotate qc jc}
                 \<and> addedAt (item z) < addedAt (item y)
                 \<and> addedAt (item y) < addedAt (item x)
                 \<and> payload (get_jobs d limit) = JobsBody [x, y]))"
proof -
  let ?t = "\<lambda>a. addedAt (item a)"
  let ?all = "concat (map (queue_jobs e (Num (int L))) (queues qs))"
  let ?sorted = "sort_key (\<lambda>a. - ?t a) ?all"
  have c: "code (get_jobs d limit) = 200"
    by (simp add: get_jobs_ok [OF assms(1,2)] split: option.splits)
  have poss: "length ys \<le> L
           \<and> (\<forall>a \<in> set ys.
                 \<exists>q \<in> set (queues qs).
                   queueId a = queue_id q \<and> queueName a = queue_name q
                   \<and> (\<exists>jobs. qm_getQueueItems e (queue_id q) (Num 0)
                                 (js_minus_one (Num (int L))) = Inr jobs
                          \<and> item a \<in> set jobs))"
    if "possible_jobs (get_jobs d limit) ys" for ys
  proof -
    from possible_jobs_arrangement [OF assms that]
    obtain p where p: "mset p = mset ?all" and ys: "ys = take L p"
      by blast
    have "\<exists>q \<in> set (queues qs).
                   queueId a = queue_id q \<and> queueName a = queue_name q
                   \<and> (\<exists>jobs. qm_getQueueItems e (queue_id q) (Num 0)
                                 (js_minus_one (Num (int L))) = Inr jobs
                          \<and> item a \<in> set jobs)"
      if "a \<in> set ys" for a
    proof -
      from that ys have "a \<in> set p"
        by (auto dest: in_set_takeD)
      with mset_eq_setD [OF p] have "a \<in> set ?all"
        by simp
      then obtain q where q: "q \<in> set (queues qs)"
        and a: "a \<in> set (queue_jobs e (Num (int L)) q)"
        by auto
      from queue_jobs_member [OF a] q show ?thesis
        by auto
    qed
    with ys show ?thesis
      by simp
  qed
  have valid: "payload (get_jobs d limit) = JobsBody (take L ?sorted)"
    if "valid_dates ?t ?all"
    by (simp add: get_jobs_ok [OF assms(1,2)] assms(3) sort_newest_first_valid [OF that])
  have srt: "newest_first ?t (jobs_of (get_jobs d limit))"
    if "valid_dates ?t ?all"
    by (simp add: valid [OF that] jobs_of_def newest_first_take newest_first_sort_key)
  have dflt: "parsed_limit 100 None = Num 100"
    by (simp add: parsed_limit_def)
  have ex: "\<exists>x y z. {x, y, z} = {annotate qa ja, annotate qb jb, annotate qc jc}
                 \<and> addedAt (item z) < addedAt (item y)
                 \<and> addedAt (item y) < addedAt (item x)
                 \<and> payload (get_jobs d limit) = JobsBody [x, y]"
    if "L = 2" and "queues qs = [qa, qb, qc]"
      and "qm_getQueueItems e (queue_id qa) (Num 0) (Num 1) = Inr [ja]"
      and "qm_getQueueItems e (queue_id qb) (Num 0) (Num 1) = Inr [jb]"
      and "qm_getQueueItems e (queue_id qc) (Num 0) (Num 1) = Inr [jc]"
      and dist: "distinct [addedAt ja, addedAt jb, addedAt jc]"
      and vd: "valid_dates addedAt [ja, jb, jc]"
  proof -
    let ?A = "annotate qa ja" and ?B = "annotate qb jb" and ?C = "annotate qc jc"
    from that have all: "?all = [?A, ?B, ?C]"
      by (simp add: queue_jobs_def round_double_small)
    from vd have "valid_dates ?t [?A, ?B, ?C]"
      by (simp add: valid_dates_def annotate_def)
    with all have "valid_dates ?t ?all"
      by simp
    from valid [OF this] that(1) all
    have res: "payload (get_jobs d limit)
        = JobsBody (take 2 (sort_key (\<lambda>a. - ?t a) [?A, ?B, ?C]))"
      by simp
    have t: "?t ?A = addedAt ja" "?t ?B = addedAt jb" "?t ?C = addedAt jc"
      by (simp_all add: annotate_def)
    from dist t consider
        (abc) "?t ?A < ?t ?B" "?t ?B < ?t ?C"
      | (acb) "?t ?A < ?t ?C" "?t ?C < ?t ?B"
      | (bac) "?t ?B < ?t ?A" "?t ?A < ?t ?C"
      | (bca) "?t ?B < ?t ?C" "?t ?C < ?t ?A"
      | (cab) "?t ?C < ?t ?A" "?t ?A < ?t ?B"
      | (cba) "?t ?C < ?t ?B" "?t ?B < ?t ?A"
      by (simp only: distinct.simps list.set) force
    then show ?thesis
    proof cases
      case abc
      from res have "payload (get_jobs d limit) = JobsBody [?C, ?B]"
        by (simp only: sort_three_newest(1) [of ?t, OF abc])
      with abc show ?thesis
        by (intro exI [of _ ?C] exI [of _ ?B] exI [of _ ?A]) auto
    next
      case acb
      from res have "payload (get_jobs d limit) = JobsBody [?B, ?C]"
        by (simp only: sort_three_newest(2) [of ?t, OF acb])
      with acb show ?thesis
        by (intro exI [of _ ?B] exI [of _ ?C] exI [of _ ?A]) auto
    next
      case bac
      from res have "payload (get_jobs d limit) = JobsBody [?C, ?A]"
        by (simp only: sort_three_newest(3) [of ?t, OF bac])
      with bac show ?thesis
        by (intro exI [of _ ?C] exI [of _ ?A] exI [of _ ?B]) auto
    next
      case bca
      from res have "payload (get_jobs d limit) = JobsBody [?A, ?C]"
        by (simp only: sort_three_newest(5) [of ?t, OF bca])
      with bca show ?thesis
        by (intro exI [of _ ?A] exI [of _ ?C] exI [of _ ?B]) auto
    next
      case cab
      from res have "payload (get_jobs d limit) = JobsBody [?B, ?A]"
        by (simp only: sort_three_newest(4) [of ?t, OF cab])
      with cab show ?thesis
        by (intro exI [of _ ?B] exI [of _ ?A] exI [of _ ?C]) auto
    next
      case cba
      from res have "payload (get_jobs d limit) = JobsBody [?A, ?B]"
        by (simp only: sort_three_newest(6) [of ?t, OF cba])
      with cba show ?thesis
        by (intro exI [of _ ?A] exI [of _ ?B] exI [of _ ?C]) auto
    qed
  qed
  have g2: "\<forall>ys. possible_jobs (get_jobs d limit) ys \<longrightarrow>
           length ys \<le> L
           \<and> (\<forall>a \<in> set ys.
                 \<exists>q \<in> set (queues qs).
                   queueId a = queue_id q \<and> queueName a = queue_name q
                   \<and> (\<exists>jobs. qm_getQueueItems e (queue_id q) (Num 0)
                                 (js_minus_one (Num (int L))) = Inr jobs
                          \<and> item a \<in> set jobs))"
    by (intro allI impI) (rule poss)
  have g3: "valid_dates ?t ?all \<longrightarrow>
           payload (get_jobs d limit) = JobsBody (take L ?sorted)
           \<and> newest_first ?t (jobs_of (get_jobs d limit))"
    by (intro impI conjI) (rule valid, assumption, rule srt, assumption)
  have g4: "L \<le> 2 ^ 53 \<longrightarrow> js_minus_one (Num (int L)) = Num (int L - 1)"
    by (intro impI) (rule js_minus_one_nat)
  have g6: "L = 2 \<and> queues qs = [qa, qb, qc]
          \<and> qm_getQueueItems e (queue_id qa) (Num 0) (Num 1) = Inr [ja]
          \<and> qm_getQueueItems e (queue_id qb) (Num 0) (Num 1) = Inr [jb]
          \<and> qm_getQueueItems e (queue_id qc) (Num 0) (Num 1) = Inr [jc]
          \<and> distinct [addedAt ja, addedAt jb, addedAt jc]
          \<and> valid_dates addedAt [ja, jb, jc]
          \<longrightarrow> (\<exists>x y z. {x, y, z} = {annotate qa ja, annotate qb jb, annotate qc jc}
                 \<and> addedAt (item z) < addedAt (item y)
                 \<and> addedAt (item y) < addedAt (item x)
                 \<and> payload (get_jobs d limit) = JobsBody [x, y])"
    by (intro impI, elim conjE, rule ex)
  show ?thesis
    by (intro conjI c g2 g3 g4 dflt g6)
qed

text \<open>Three queues, creation times 10, 30 and 20, limit 2: the jobs of 30 and of 20.\<close>

theorem C4_jobs_newest_first_witness:
  "payload (get_jobs (dashboard_on (store_engine three_queues)) (Some (js_str ''2'')))
     = JobsBody
        [\<lparr>item = mk_job ''b1'' ''failed'' 30, queueId = ''qb'', queueName = ''Reports''\<rparr>,
         \<lparr>item = mk_job ''c1'' ''completed'' 20, queueId = ''qc'', queueName = ''Images''\<rparr>]"
proof -
  let ?e = "store_engine three_queues"
  let ?qs = "\<lparr>queues = map sq_queue three_queues, total = Some 3\<rparr>"
  let ?all = "concat (map (queue_jobs ?e (Num (int 2))) (queues ?qs))"
  have q: "qm (dashboard_on ?e) = Some ?e"
    by (simp add: dashboard_on_def)
  have l: "qm_getAllQueues ?e 1000 = Inr ?qs"
    by (simp add: store_engine_def three_queues_def)
  have p: "parsed_limit 100 (Some (js_str ''2'')) = Num (int 2)"
    by (simp add: parsed_limit_def parseInt_2)
  have all: "?all =
      [\<lparr>item = mk_job ''a1'' ''pending'' 10, queueId = ''qa'', queueName = ''Mail''\<rparr>,
       \<lparr>item = mk_job ''b1'' ''failed'' 30, queueId = ''qb'', queueName = ''Reports''\<rparr>,
       \<lparr>item = mk_job ''c1'' ''completed'' 20, queueId = ''qc'', queueName = ''Images''\<rparr>]"
    by (simp add: queue_jobs_def store_engine_def three_queues_def find_queue_def
        mk_queue_def inclusive_range_def annotate_def round_double_small)
  have v: "valid_dates (\<lambda>a. addedAt (item a)) ?all"
    by (simp only: all) (simp add: valid_dates_def time_value_def mk_job_def)
  from C4_jobs_newest_first [OF q l p] v
  have "payload (get_jobs (dashboard_on ?e) (Some (js_str ''2'')))
      = JobsBody (take 2 (sort_key (\<lambda>a. - addedAt (item a)) ?all))"
    by blast
  then show ?thesis
    by (simp only: all) (simp add: mk_job_def)
qed

subsection \<open>C5: an empty name or queue id is rejected before the engine is touched\<close>

text \<open>
  C5. For every request body whose \<open>name\<close> is the empty string, whatever the rest of
  the body and whether or not an engine is present, \<open>POST /api/queues\<close> answers 400 with
  the validation errors, among them the error of the \<open>name\<close> field, and makes no engine
  call. The same holds for an empty \<open>queueId\<close>.
\<close>

theorem C5_empty_field_rejected:
  "(body_name b = JStr [] \<longrightarrow>
      post_queues d b = (\<lparr>code = 400, payload = ValidationBody (validationResult b)\<rparr>, [])
      \<and> \<lparr>err_param = ''name'', err_msg = ''Queue name is required'', err_value = JStr []\<rparr>
          \<in> set (validationResult b))
   \<and> (body_queueId b = JStr [] \<longrightarrow>
      post_queues d b = (\<lparr>code = 400, payload = ValidationBody (validationResult b)\<rparr>, [])
      \<and> \<lparr>err_param = ''queueId'', err_msg = ''Queue ID is required'', err_value = JStr []\<rparr>
          \<in> set (validationResult b))"
proof (intro conjI impI)
  assume n: "body_name b = JStr []"
  then have "validationResult b \<noteq> []"
    by (simp add: validationResult_def)
  then show "post_queues d b
      = (\<lparr>code = 400, payload = ValidationBody (validationResult b)\<rparr>, [])"
    by (rule post_queues_invalid)
  from n show "\<lparr>err_param = ''name'', err_msg = ''Queue name is required'',
      err_value = JStr []\<rparr> \<in> set (validationResult b)"
    by (simp add: validationResult_def)
next
  assume q: "body_queueId b = JStr []"
  then have "validationResult b \<noteq> []"
    by (simp add: validationResult_def)
  then show "post_queues d b
      = (\<lparr>code = 400, payload = ValidationBody (validationResult b)\<rparr>, [])"
    by (rule post_queues_invalid)
  from q show "\<lparr>err_param = ''queueId'', err_msg = ''Queue ID is required'',
      err_value = JStr []\<rparr> \<in> set (validationResult b)"
    by (simp add: validationResult_def)
qed

text \<open>An empty name, and an empty queue id, sent to a dashboard whose engine is present.\<close>

theorem C5_empty_field_rejected_witness:
  "post_queues (dashboard_on (store_engine [])) (mk_body (JStr []) (JStr ''q1'') (JNum 5))
     = (\<lparr>code = 400,
         payload = ValidationBody
           [\<lparr>err_param = ''name'', err_msg = ''Queue name is required'',
             err_value = JStr []\<rparr>]\<rparr>, [])
   \<and> post_queues (dashboard_on (store_engine [])) (mk_body (JStr ''Mail'') (JStr []) (JNum 5))
     = (\<lparr>code = 400,
         payload = ValidationBody
           [\<lparr>err_param = ''queueId'', err_msg = ''Queue ID is required'',
             err_value = JStr []\<rparr>]\<rparr>, [])"
proof -
  let ?d = "dashboard_on (store_engine [])"
  let ?b1 = "mk_body (JStr []) (JStr ''q1'') (JNum 5)"
  let ?b2 = "mk_body (JStr ''Mail'') (JStr []) (JNum 5)"
  have n: "body_name ?b1 = JStr []" and q: "body_queueId ?b2 = JStr []"
    by (simp_all add: mk_body_def)
  have v1: "validationResult ?b1
      = [\<lparr>err_param = ''name'', err_msg = ''Queue name is required'', err_value = JStr []\<rparr>]"
    by (simp add: validationResult_def mk_body_def)
  have v2: "validationResult ?b2
      = [\<lparr>err_param = ''queueId'', err_msg = ''Queue ID is required'', err_value = JStr []\<rparr>]"
    by (simp add: validationResult_def mk_body_def)
  from C5_empty_field_rejected [of ?b1 ?d] n
  have a: "post_queues ?d ?b1
      = (\<lparr>code = 400, payload = ValidationBody (validationResult ?b1)\<rparr>, [])"
    by blast
  from C5_empty_field_rejected [of ?b2 ?d] q
  have b: "post_queues ?d ?b2
      = (\<lparr>code = 400, payload = ValidationBody (validationResult ?b2)\<rparr>, [])"
    by blast
  from a b show ?thesis
    by (simp only: v1 v2 simp_thms)
qed

subsection \<open>C6: the answers when the engine is absent\<close>

text \<open>
  C6, as stated, fails for \<open>POST /api/queues\<close>: the validation runs before the engine
  check, so with no engine a body with an empty name is answered 400, not 503.
\<close>

theorem C6_counterexample:
  "qm demo_dashboard = None
   \<and> post_queues demo_dashboard (mk_body (JStr []) (JStr ''q1'') JUndefined)
       = (\<lparr>code = 400,
           payload = ValidationBody
             [\<lparr>err_param = ''name'', err_msg = ''Queue name is required'',
               err_value = JStr []\<rparr>]\<rparr>, [])"
  by (simp add: demo_dashboard_def post_queues_def validationResult_def mk_body_def
      res_status_json_def)

text \<open>
  C6, amended. With no engine client, the read endpoints answer 200 with their degraded
  shapes: \<open>{status: "demo"}\<close> for the health, \<open>{queues: [], total: 0}\<close> for the queues,
  the empty array for the jobs and for the recent activity, zeroed totals with the current
  number of connected clients for the system stats. \<open>DELETE /api/queues/:queueId\<close>
  answers 503, and \<open>POST /api/queues\<close> answers 503 for every body that passes the
  validation; neither calls the engine.
\<close>

theorem C6_degraded_without_engine:
  assumes "qm d = None"
  shows "get_health d = \<lparr>code = 200, payload = HealthBody [(''status'', JStr ''demo'')]\<rparr>
     \<and> get_queues d = \<lparr>code = 200, payload = QueuesBody \<lparr>queues = [], total = Some 0\<rparr>\<rparr>
     \<and> get_jobs d limit = \<lparr>code = 200, payload = JobsBody []\<rparr>
     \<and> get_activity_recent d limit = \<lparr>code = 200, payload = ActivityBody []\<rparr>
     \<and> get_system_stats d
         = \<lparr>code = 200,
            payload = StatsBody
              \<lparr>snap_top = [], snap_system_rest = [], snap_totalQueues = 0,
               snap_totalJobs = 0, snap_activeJobs = 0, snap_failedJobs = 0,
               snap_connectedClients = fcard (connectedClients d)\<rparr>\<rparr>
     \<and> (validationResult b = [] \<longrightarrow>
          post_queues d b
            = (\<lparr>code = 503, payload = ErrorBody ''QueueManager not available''\<rparr>, []))
     \<and> delete_queue d queueId_param
         = (\<lparr>code = 503, payload = ErrorBody ''QueueManager not available''\<rparr>, [])"
  using assms
  by (simp add: get_health_def get_queues_def get_jobs_def get_activity_recent_def
      get_system_stats_def getSystemStats_def delete_queue_def post_queues_no_engine
      res_json_def res_status_json_def set_size_def)

text \<open>The dashboard in demo mode, with two clients connected.\<close>

theorem C6_degraded_without_engine_witness:
  "get_health demo_dashboard = \<lparr>code = 200, payload = HealthBody [(''status'', JStr ''demo'')]\<rparr>
   \<and> get_system_stats (demo_dashboard\<lparr>connectedClients := {|''s1'', ''s2''|}\<rparr>)
       = \<lparr>code = 200,
          payload = StatsBody
            \<lparr>snap_top = [], snap_system_rest = [], snap_totalQueues = 0,
             snap_totalJobs = 0, snap_activeJobs = 0, snap_failedJobs = 0,
             snap_connectedClients = 2\<rparr>\<rparr>
   \<and> post_queues demo_dashboard (mk_body (JStr ''Mail'') (JStr ''q1'') JUndefined)
       = (\<lparr>code = 503, payload = ErrorBody ''QueueManager not available''\<rparr>, [])"
proof -
  let ?d = "demo_dashboard\<lparr>connectedClients := {|''s1'', ''s2''|}\<rparr>"
  let ?b = "mk_body (JStr ''Mail'') (JStr ''q1'') JUndefined"
  have n: "qm demo_dashboard = None" "qm ?d = None"
    by (simp_all add: demo_dashboard_def)
  have v: "validationResult ?b = []"
    by (simp add: validationResult_def mk_body_def)
  have c: "fcard (connectedClients ?d) = 2"
    by (simp add: fcard_finsert_if)
  from C6_degraded_without_engine [OF n(1), of _ ?b] v
  have a: "get_health demo_dashboard
        = \<lparr>code = 200, payload = HealthBody [(''status'', JStr ''demo'')]\<rparr>"
    and p: "post_queues demo_dashboard ?b
        = (\<lparr>code = 503, payload = ErrorBody ''QueueManager not available''\<rparr>, [])"
    by blast+
  from C6_degraded_without_engine [OF n(2)] c
  have s: "get_system_stats ?d
       = \<lparr>code = 200,
          payload = StatsBody
            \<lparr>snap_top = [], snap_system_rest = [], snap_totalQueues = 0,
             snap_totalJobs = 0, snap_activeJobs = 0, snap_failedJobs = 0,
             snap_connectedClients = 2\<rparr>\<rparr>"
    by simp
  from a p s show ?thesis by simp
qed

subsection \<open>C7: the connected-client count\<close>

text \<open>
  C7. With the real-time feature on, a connection of a socket with a fresh id raises the
  connected-client count by one, a disconnection of a connected socket lowers it by one,
  and \<open>subscribeQueue\<close> and \<open>unsubscribeQueue\<close> leave it as it is. So after any
  sequence of events the socket server can deliver, the count is the count before, plus
  the connections, minus the disconnections; connecting, subscribing to a queue and
  disconnecting leaves it where it was.
\<close>

theorem C7_connected_client_count:
  assumes "websocket (feats d)"
  shows "(sid |\<notin>| connectedClients d \<longrightarrow>
            client_count (fst (client_step d (Connect sid))) = client_count d + 1)
     \<and> (sid |\<in>| connectedClients d \<longrightarrow>
            client_count (fst (client_step d (Disconnect sid))) + 1 = client_count d)
     \<and> client_count (fst (client_step d (SubscribeQueue sid q))) = client_count d
     \<and> client_count (fst (client_step d (UnsubscribeQueue sid q))) = client_count d
     \<and> (deliverable d evs \<longrightarrow>
            int (client_count (client_steps d evs))
              = int (client_count d) + int (length (filter is_connect evs))
                  - int (length (filter is_disconnect evs)))
     \<and> (sid |\<notin>| connectedClients d \<longrightarrow>
            client_count (client_steps d [Connect sid, SubscribeQueue sid q, Disconnect sid])
              = client_count d)"
proof -
  have "client_count (client_steps d [Connect sid, SubscribeQueue sid q, Disconnect sid])
          = client_count d"
    if fresh: "sid |\<notin>| connectedClients d"
    using count_client_steps [OF assms connect_subscribe_disconnect [OF assms fresh, of q]]
    by simp
  with assms show ?thesis
    by (simp add: count_connect count_disconnect count_subscribe count_unsubscribe
        count_client_steps)
qed

text \<open>One client is connected; another connects, subscribes to \<open>Q1\<close> and disconnects.\<close>

theorem C7_connected_client_count_witness:
  "client_count one_client_dashboard = 1
   \<and> client_count (fst (client_step one_client_dashboard (Connect ''s1''))) = 2
   \<and> client_count (fst (client_step one_client_dashboard (Disconnect ''s0''))) = 0
   \<and> client_count
       (client_steps one_client_dashboard
          [Connect ''s1'', SubscribeQueue ''s1'' ''Q1'', Disconnect ''s1'']) = 1"
proof -
  let ?d = one_client_dashboard
  have w: "websocket (feats ?d)"
    by (simp add: one_client_dashboard_def demo_dashboard_def default_features_def)
  have c: "client_count ?d = 1"
    by (simp add: client_count_def one_client_dashboard_def set_size_def fcard_finsert_if)
  have f: "''s1'' |\<notin>| connectedClients ?d" and m: "''s0'' |\<in>| connectedClients ?d"
    by (simp_all add: one_client_dashboard_def)
  from C7_connected_client_count [OF w, of "''s1''" "''Q1''"] f c
  have a: "client_count (fst (client_step ?d (Connect ''s1''))) = 2"
    and b: "client_count (client_steps ?d
              [Connect ''s1'', SubscribeQueue ''s1'' ''Q1'', Disconnect ''s1'']) = 1"
    by simp_all
  from C7_connected_client_count [OF w, of "''s0''"] m c
  have e: "client_count (fst (client_step ?d (Disconnect ''s0''))) = 0"
    by simp
  from a b c e show ?thesis by simp
qed

subsection \<open>C8: the relay broadcasts every engine event to every client\<close>

text \<open>
  C8. With the relay set up (the real-time feature on, an engine with an event emitter),
  an engine event of any of the eight names causes exactly one broadcast: every socket
  connected to the server gets the event under the same name with the same payload. The
  rooms the sockets have joined make no difference.
\<close>

theorem C8_relay_broadcast:
  assumes "websocket (feats d)" and "qm d = Some e" and "hasEventEmitter e"
  shows "\<forall>name \<in> set relay_events.
           engine_event d name data = [(\<lambda>sid. (sid, name, data)) |`| io_sockets d]
         \<and> engine_event (d\<lparr>io_rooms := r\<rparr>) name data = engine_event d name data"
proof (intro ballI conjI)
  fix name
  assume n: "name \<in> set relay_events"
  from relay_emits_once [OF assms n]
  have once: "emitter_emit (relay_listeners d) name data = [IoEmit name data]" .
  then show "engine_event d name data = [(\<lambda>sid. (sid, name, data)) |`| io_sockets d]"
    by (simp add: engine_event_def)
  from once show "engine_event (d\<lparr>io_rooms := r\<rparr>) name data = engine_event d name data"
    by (simp add: engine_event_def relay_listeners_rooms)
qed

text \<open>
  Two clients, only one of them subscribed to a queue: both get the \<open>jobFailed\<close> event.
\<close>

theorem C8_relay_broadcast_witness:
  "engine_event relay_dashboard ''jobFailed'' (JStr ''job-7'')
     = [{|(''s1'', ''jobFailed'', JStr ''job-7''), (''s2'', ''jobFailed'', JStr ''job-7'')|}]"
proof -
  have w: "websocket (feats relay_dashboard)"
    and q: "qm relay_dashboard = Some (store_engine [])"
    and h: "hasEventEmitter (store_engine [])"
    by (simp_all add: relay_dashboard_def dashboard_on_def demo_dashboard_def
        default_features_def store_engine_def)
  have n: "''jobFailed'' \<in> set relay_events"
    by (simp add: relay_events_def)
  have s: "io_sockets relay_dashboard = {|''s1'', ''s2''|}"
    by (simp add: relay_dashboard_def)
  from C8_relay_broadcast [OF w q h, of "JStr ''job-7''"] n
  have "engine_event relay_dashboard ''jobFailed'' (JStr ''job-7'')
      = [(\<lambda>sid. (sid, ''jobFailed'', JStr ''job-7'')) |`| io_sockets relay_dashboard]"
    by blast
  then show ?thesis
    by (simp add: s)
qed

subsection \<open>C9: the recent activity takes the range 0 to 10 of every queue\<close>

text \<open>
  C9. The handler asks every queue for the items of the index range 0 to 10. The job
  listings compute their end index as \<open>limit - 1\<close> to get \<open>limit\<close> items, so the range
  includes its end, and 0 to 10 is eleven items, not the ten of the claim: for one queue
  that holds eleven jobs and the default limit of 20, the answer is 200 with eleven
  entries, all of that queue, newest first.
\<close>

theorem C9_eleven_items_from_one_queue:
  "length (sq_items eleven_queue) = 11
   \<and> code (get_activity_recent (dashboard_on (store_engine [eleven_queue])) None) = 200
   \<and> map act_timestamp
        (activity_of (get_activity_recent (dashboard_on (store_engine [eleven_queue])) None))
       = [11, 10, 9, 8, 7, 6, 5, 4, 3, 2, 1]
   \<and> map act_queueId
        (activity_of (get_activity_recent (dashboard_on (store_engine [eleven_queue])) None))
       = replicate 11 ''q1''"
proof -
  let ?e = "store_engine [eleven_queue]"
  let ?acts = "map (project (sq_queue eleven_queue)) (sq_items eleven_queue)"
  have q: "qm (dashboard_on ?e) = Some ?e"
    by (simp add: dashboard_on_def)
  have len: "length (sq_items eleven_queue) = 11"
    by (simp add: eleven_queue_def)
  have fetched: "qm_getQueueItems ?e (queue_id (sq_queue eleven_queue)) (Num 0) (Num 10)
      = Inr (sq_items eleven_queue)"
    by (simp add: store_engine_single inclusive_range_all len)
  have acts: "queue_activity ?e (sq_queue eleven_queue) = ?acts"
    by (simp add: queue_activity_def fetched)
  have v: "valid_dates act_timestamp ?acts"
    by (simp add: valid_dates_def time_value_def eleven_queue_def project_def mk_job_def)
  have p: "parsed_limit 20 None = Num (int 20)"
    by (simp add: parsed_limit_def)
  have r: "get_activity_recent (dashboard_on ?e) None =
     \<lparr>code = 200,
      payload = ActivityBody (take 20 (sort_key (\<lambda>a. - act_timestamp a) ?acts))\<rparr>"
    using get_activity_recent_ok [OF q store_engine_single(2), of None] v
    by (simp add: p acts del: of_nat_numeral)
  have a: "activity_of (get_activity_recent (dashboard_on ?e) None)
      = take 20 (sort_key (\<lambda>a. - act_timestamp a) ?acts)"
    by (simp add: r activity_of_def)
  have c: "code (get_activity_recent (dashboard_on ?e) None) = 200"
    by (simp add: r)
  have s: "sort_key (\<lambda>a. - act_timestamp a) ?acts = rev ?acts"
    by (simp add: eleven_queue_def project_def mk_job_def mk_queue_def)
  have t: "map act_timestamp (activity_of (get_activity_recent (dashboard_on ?e) None))
      = [11, 10, 9, 8, 7, 6, 5, 4, 3, 2, 1]"
    by (simp add: a s) (simp add: eleven_queue_def project_def mk_job_def)
  have i: "map act_queueId (activity_of (get_activity_recent (dashboard_on ?e) None))
      = replicate 11 ''q1''"
    by (simp add: a s) (simp add: eleven_queue_def project_def mk_queue_def numeral_eq_Suc)
  from len c t i show ?thesis
    by (simp only: simp_thms)
qed

subsection \<open>C10: the default capacity\<close>

text \<open>
  C10. When the body passes the validation and the engine is present, \<open>createQueue\<close> is
  called once, with the name, the queue id and the description of the body; its
  \<open>maxSize\<close> is 10000 when the body's is absent, \<open>null\<close> or 0 (or falsy in any other
  way), and the body's own value otherwise, so a non-zero number is passed on as it is.
  The stand-alone server makes the same call.
\<close>

theorem C10_maxSize_default:
  assumes "validationResult b = []" and "qm d = Some e"
  shows "(\<exists>m. snd (post_queues d b)
              = [CreateQueue (body_name b) (body_queueId b)
                   \<lparr>description = body_description b, maxSize = m\<rparr>]
            \<and> snd (server_post_queues e b)
              = [CreateQueue (body_name b) (body_queueId b)
                   \<lparr>description = body_description b, maxSize = m\<rparr>]
            \<and> (body_maxSize b \<in> {JUndefined, JNull, JNum 0} \<longrightarrow> m = JNum 10000)
            \<and> (\<not> truthy (body_maxSize b) \<longrightarrow> m = JNum 10000)
            \<and> (\<forall>n. body_maxSize b = JNum n \<and> n \<noteq> 0 \<longrightarrow> m = JNum n)
            \<and> (truthy (body_maxSize b) \<longrightarrow> m = body_maxSize b))"
  using post_queues_calls [OF assms] server_post_queues_calls [of e b]
  by (auto simp add: js_or_def)

text \<open>A capacity of 0 becomes 10000; a capacity of 250 stays.\<close>

theorem C10_maxSize_default_witness:
  "snd (post_queues (dashboard_on (store_engine [])) (mk_body (JStr ''Mail'') (JStr ''q1'') (JNum 0)))
     = [CreateQueue (JStr ''Mail'') (JStr ''q1'')
          \<lparr>description = JUndefined, maxSize = JNum 10000\<rparr>]
   \<and> snd (post_queues (dashboard_on (store_engine [])) (mk_body (JStr ''Mail'') (JStr ''q1'') (JNum 250)))
     = [CreateQueue (JStr ''Mail'') (JStr ''q1'')
          \<lparr>description = JUndefined, maxSize = JNum 250\<rparr>]"
proof -
  let ?d = "dashboard_on (store_engine [])"
  let ?b0 = "mk_body (JStr ''Mail'') (JStr ''q1'') (JNum 0)"
  let ?b1 = "mk_body (JStr ''Mail'') (JStr ''q1'') (JNum 250)"
  have v: "validationResult ?b0 = []" "validationResult ?b1 = []"
    by (simp_all add: validationResult_def mk_body_def)
  have e: "qm ?d = Some (store_engine [])"
    by (simp add: dashboard_on_def)
  from C10_maxSize_default [OF v(1) e]
  have a: "snd (post_queues ?d ?b0)
      = [CreateQueue (JStr ''Mail'') (JStr ''q1'')
           \<lparr>description = JUndefined, maxSize = JNum 10000\<rparr>]"
    by (auto simp add: mk_body_def)
  from C10_maxSize_default [OF v(2) e]
  have b: "snd (post_queues ?d ?b1)
      = [CreateQueue (JStr ''Mail'') (JStr ''q1'')
           \<lparr>description = JUndefined, maxSize = JNum 250\<rparr>]"
    by (auto simp add: mk_body_def)
  from a b show ?thesis by simp
qed

end
